theory Spec2Isabelle
  imports Complex_Main "HOL-Library.Sublist"
begin

section \<open>Data model of the page component\<close>

text \<open>
  The page component \<open>Home\<close> exists in two variants: the current one
  (\<open>frontend/app\<close>, tabs stocks, excel, lbo, ma, compare) and an older one (tabs
  stocks and raw). Both share the job lifecycle: submit, poll every second, stop at a
  terminal status. JavaScript numbers that are only stored and forwarded are modelled by
  the rational they denote; \<open>forecastYears\<close> (one of 3, 5, 7, 10) is a natural number
  and \<open>progress\<close> an integer.
\<close>

record Stock =
  symbol :: string
  name :: string
  sector :: string
  sector_code :: "string option"

record JobStatus =
  job_id :: string
  status :: string
  progress :: int
  message :: string
  company_name :: "string option"
  industry :: "string option"
  download_url :: "string option"
  filename :: "string option"
  validation :: "(bool \<times> string list) option"

record File =
  file_name :: string
  file_bytes :: string

record LBOAssumptions =
  holding_period :: rat
  entry_multiple :: rat
  exit_multiple :: rat
  senior_debt_multiple :: rat
  senior_interest_rate :: rat
  mezz_debt_multiple :: rat
  mezz_interest_rate :: rat
  sub_debt_multiple :: rat
  sub_interest_rate :: rat
  revenue_growth :: rat
  ebitda_margin :: rat

record MAAssumptions =
  offer_premium :: rat
  percent_stock :: rat
  percent_cash :: rat
  synergies_revenue :: rat
  synergies_cost :: rat
  acquirer_growth_rate :: rat
  target_growth_rate :: rat

text \<open>The value handed to \<open>JSON.stringify\<close>: objects keep the order of their keys.\<close>

datatype json = JStr string | JNum rat | JArr "json list" | JObj "(string \<times> json) list"

text \<open>
  \<open>RawModelData\<close> of the older variant; \<open>historical_data\<close> and \<open>assumptions\<close> are
  nested plain objects that the code only spreads and serialises.
\<close>

record RawModelData =
  raw_company_name :: string
  raw_industry :: string
  raw_forecast_years :: nat
  historical_data :: json
  assumptions :: json

datatype form_value = FText string | FFile File

datatype body = NoBody | JsonBody json | FormBody "(string \<times> form_value) list"

record request =
  meth :: string
  url :: string
  headers :: "(string \<times> string) list"
  body :: body

text \<open>
  A value received as JSON. A number is kept as the text that JavaScript prints for it
  (\<open>Number.prototype.toString\<close>), which is \<open>0\<close> exactly for a zero.
\<close>

datatype jsval =
    Null
  | Bool bool
  | Num string
  | Str string
  | Arr "jsval list"
  | Obj "(string \<times> jsval) list"

text \<open>
  What \<open>fetch\<close> settles with. A rejected fetch carries the thrown value. A response is
  read at the type the calling function declares for it: \<open>parsed\<close> is the outcome of
  \<open>response.json()\<close> (\<open>Inl\<close> the thrown value when the body is not JSON). \<open>errorData\<close> is
  the same body read as an untyped JSON value, \<open>None\<close> when it is not JSON, and \<open>blob\<close>
  the raw bytes.
\<close>

datatype thrown = Error string | NonError

record 'a response =
  ok :: bool
  status_code :: nat
  parsed :: "thrown + 'a"
  errorData :: "jsval option"
  blob :: string

datatype 'a fetch_result = Rejected thrown | Responded "'a response"

datatype TabType = Stocks | Excel | Lbo | Ma | Compare

datatype TabType_v0 = Stocks_v0 | Raw_v0

text \<open>
  The state both variants share (\<open>useState\<close> cells) followed by the browser around it:
  the value of the module constant \<open>API_BASE\<close>, the running interval timers with the
  \<open>job_id\<close> their callback closed over, the dependencies and the cleanup handle of the
  last run of the polling effect, the polls awaiting their response (by the handle of
  the timer that fired them), and the
  observable trace: requests issued, \<open>console.error\<close> lines, \<open>alert\<close> boxes and files
  saved (name and bytes).
\<close>

record Lifecycle =
  selectedStock :: "Stock option"
  forecastYears :: nat
  jobStatus :: "JobStatus option"
  error :: "string option"
  isLoading :: bool
  API_BASE :: string
  timers :: "(nat \<times> string) list"
  nextTimer :: nat
  effectDeps :: "(string option \<times> string option) option"
  effectCleanup :: "nat option"
  inflight :: "nat list"
  requests :: "request list"
  console :: "(string \<times> thrown) list"
  alerts :: "string list"
  saved :: "(string \<times> string) list"

record Home = Lifecycle +
  activeTab :: TabType
  excelFile :: "File option"
  excelCompanyName :: string
  excelIndustry :: string
  lboAssumptions :: LBOAssumptions
  acquirerStock :: "Stock option"
  targetStock :: "Stock option"
  maAssumptions :: MAAssumptions
  compareStocks :: "Stock list"
  compareSearch :: string
  compareSearchResults :: "Stock list"

record Home_v0 = Lifecycle +
  activeTab_v0 :: TabType_v0
  rawData :: RawModelData

section \<open>Strings\<close>

text \<open>\<open>Number.prototype.toString\<close> on a natural number: its decimal digits.\<close>

fun toString :: "nat \<Rightarrow> string" where
  "toString n =
     (if n < 10 then [char_of (48 + n)] else toString (n div 10) @ [char_of (48 + n mod 10)])"

declare toString.simps [simp del]

text \<open>\<open>String.prototype.trim\<close>, on the white space and line terminators below U+0100.\<close>

definition is_space :: "char \<Rightarrow> bool" where
  "is_space ch = (of_char ch \<in> {9, 10, 11, 12, 13, 32, 160 :: nat})"

definition trim :: "string \<Rightarrow> string" where
  "trim s = rev (dropWhile is_space (rev (dropWhile is_space s)))"

text \<open>\<open>name.replace(/\.xlsx?$/, '')\<close>: a final \<open>.xlsx\<close> or \<open>.xls\<close> is removed.\<close>

definition strip_xlsx :: "string \<Rightarrow> string" where
  "strip_xlsx s =
     (if suffix ''.xlsx'' s then take (length s - 5) s
      else if suffix ''.xls'' s then take (length s - 4) s
      else s)"

section \<open>API functions\<close>

text \<open>
  Every API function issues one \<open>fetch\<close> and then reads the response. Each is given as
  the request it issues and the value it settles with for a given outcome of the fetch
  (\<open>Inl\<close> what it throws).
\<close>

definition API_BASE_of :: "string \<Rightarrow> string" where
  "API_BASE_of node_env = (if node_env = ''production'' then [] else ''http://localhost:8000'')"

definition API_BASE_v0 :: string where
  "API_BASE_v0 = []"

definition generateModel_request :: "string \<Rightarrow> string \<Rightarrow> nat \<Rightarrow> request" where
  "generateModel_request base symbol' years =
     \<lparr>meth = ''POST'', url = base @ ''/api/model/generate'',
      headers = [(''Content-Type'', ''application/json'')],
      body = JsonBody (JObj
        [(''symbol'', JStr symbol'),
         (''exchange'', JStr ''NSE''),
         (''forecast_years'', JNum (of_nat years)),
         (''model_types'', JArr [JStr ''three_statement'', JStr ''dcf''])])\<rparr>"

definition generateModel_result :: "string fetch_result \<Rightarrow> thrown + string" where
  "generateModel_result fr =
     (case fr of
        Rejected e \<Rightarrow> Inl e
      | Responded r \<Rightarrow>
          if \<not> ok r then Inl (Error ''Failed to start model generation'') else parsed r)"

definition RawModelData_json :: "RawModelData \<Rightarrow> json" where
  "RawModelData_json d =
     JObj [(''company_name'', JStr (raw_company_name d)),
           (''industry'', JStr (raw_industry d)),
           (''forecast_years'', JNum (of_nat (raw_forecast_years d))),
           (''historical_data'', historical_data d),
           (''assumptions'', assumptions d)]"

definition generateRawModel_request :: "string \<Rightarrow> RawModelData \<Rightarrow> request" where
  "generateRawModel_request base d =
     \<lparr>meth = ''POST'', url = base @ ''/api/model/generate-raw'',
      headers = [(''Content-Type'', ''application/json'')],
      body = JsonBody (RawModelData_json d)\<rparr>"

definition generateRawModel_result :: "string fetch_result \<Rightarrow> thrown + string" where
  "generateRawModel_result fr =
     (case fr of
        Rejected e \<Rightarrow> Inl e
      | Responded r \<Rightarrow>
          if \<not> ok r then Inl (Error ''Failed to start raw model generation'') else parsed r)"

text \<open>The members that \<open>...lboAssumptions\<close> and \<open>...maAssumptions\<close> spread into a body.\<close>

definition lboAssumptions_members :: "LBOAssumptions \<Rightarrow> (string \<times> json) list" where
  "lboAssumptions_members a =
     [(''holding_period'', JNum (holding_period a)),
      (''entry_multiple'', JNum (entry_multiple a)),
      (''exit_multiple'', JNum (exit_multiple a)),
      (''senior_debt_multiple'', JNum (senior_debt_multiple a)),
      (''senior_interest_rate'', JNum (senior_interest_rate a)),
      (''mezz_debt_multiple'', JNum (mezz_debt_multiple a)),
      (''mezz_interest_rate'', JNum (mezz_interest_rate a)),
      (''sub_debt_multiple'', JNum (sub_debt_multiple a)),
      (''sub_interest_rate'', JNum (sub_interest_rate a)),
      (''revenue_growth'', JNum (revenue_growth a)),
      (''ebitda_margin'', JNum (ebitda_margin a))]"

definition maAssumptions_members :: "MAAssumptions \<Rightarrow> (string \<times> json) list" where
  "maAssumptions_members a =
     [(''offer_premium'', JNum (offer_premium a)),
      (''percent_stock'', JNum (percent_stock a)),
      (''percent_cash'', JNum (percent_cash a)),
      (''synergies_revenue'', JNum (synergies_revenue a)),
      (''synergies_cost'', JNum (synergies_cost a)),
      (''acquirer_growth_rate'', JNum (acquirer_growth_rate a)),
      (''target_growth_rate'', JNum (target_growth_rate a))]"

definition generateLBOModel_request :: "string \<Rightarrow> json \<Rightarrow> request" where
  "generateLBOModel_request base d =
     \<lparr>meth = ''POST'', url = base @ ''/api/model/generate-lbo'',
      headers = [(''Content-Type'', ''application/json'')],
      body = JsonBody d\<rparr>"

definition generateLBOModel_result :: "string fetch_result \<Rightarrow> thrown + string" where
  "generateLBOModel_result fr =
     (case fr of
        Rejected e \<Rightarrow> Inl e
      | Responded r \<Rightarrow>
          if \<not> ok r then Inl (Error ''Failed to start LBO model generation'') else parsed r)"

definition generateMAModel_request :: "string \<Rightarrow> json \<Rightarrow> request" where
  "generateMAModel_request base d =
     \<lparr>meth = ''POST'', url = base @ ''/api/model/generate-ma'',
      headers = [(''Content-Type'', ''application/json'')],
      body = JsonBody d\<rparr>"

definition generateMAModel_result :: "string fetch_result \<Rightarrow> thrown + string" where
  "generateMAModel_result fr =
     (case fr of
        Rejected e \<Rightarrow> Inl e
      | Responded r \<Rightarrow>
          if \<not> ok r then Inl (Error ''Failed to start M&A model generation'') else parsed r)"

definition uploadExcelFile_request :: "string \<Rightarrow> File \<Rightarrow> string \<Rightarrow> string \<Rightarrow> nat \<Rightarrow> request" where
  "uploadExcelFile_request base file companyName ind years =
     \<lparr>meth = ''POST'', url = base @ ''/api/model/upload-excel'',
      headers = [],
      body = FormBody
        [(''file'', FFile file),
         (''company_name'', FText companyName),
         (''industry'', FText ind),
         (''forecast_years'', FText (toString years))]\<rparr>"

text \<open>
  What JavaScript does with a received value: \<open>v ? .. : ..\<close> (truthiness), \<open>String(v)\<close>
  as \<open>new Error(v)\<close> applies it to its message (an array joins its elements with
  commas, printing nothing for \<open>null\<close>; an object prints as \<open>[object Object]\<close>), and
  \<open>v.detail\<close>, which throws a \<open>TypeError\<close> on \<open>null\<close>, finds the last member of that
  name in an object and is \<open>undefined\<close> on anything else. The text of the
  \<open>TypeError\<close> is the one V8 gives.
\<close>

fun truthy :: "jsval \<Rightarrow> bool" where
  "truthy Null = False"
| "truthy (Bool b) = b"
| "truthy (Num t) = (t \<noteq> ''0'')"
| "truthy (Str t) = (t \<noteq> [])"
| "truthy (Arr vs) = True"
| "truthy (Obj kvs) = True"

fun js_String :: "jsval \<Rightarrow> string" and js_join :: "jsval list \<Rightarrow> string" where
  "js_String Null = ''null''"
| "js_String (Bool b) = (if b then ''true'' else ''false'')"
| "js_String (Num t) = t"
| "js_String (Str t) = t"
| "js_String (Arr vs) = js_join vs"
| "js_String (Obj kvs) = ''[object Object]''"
| "js_join [] = []"
| "js_join [v] = (if v = Null then [] else js_String v)"
| "js_join (v # w # vs) = (if v = Null then [] else js_String v) @ '','' @ js_join (w # vs)"

definition detail_of :: "jsval \<Rightarrow> thrown + jsval option" where
  "detail_of v =
     (case v of
        Null \<Rightarrow>
          Inl (Error (''Cannot read properties of null (reading '' @ [CHR 0x27] @ ''detail''
                      @ [CHR 0x27] @ '')''))
      | Obj kvs \<Rightarrow> Inr (map_of (rev kvs) ''detail'')
      | _ \<Rightarrow> Inr None)"

text \<open>
  \<open>uploadExcelFile\<close>. On a response that is not ok:
  \<open>errorData = await response.json().catch(() => ({}))\<close>, then
  \<open>throw new Error(errorData.detail || `Upload failed: ${response.status}`)\<close>. The
  \<open>detail\<close> may be any JSON value; a truthy one becomes the message as \<open>String\<close> prints
  it.
\<close>

definition uploadExcelFile_result :: "string fetch_result \<Rightarrow> thrown + string" where
  "uploadExcelFile_result fr =
     (case fr of
        Rejected e \<Rightarrow> Inl e
      | Responded r \<Rightarrow>
          if \<not> ok r then
            (case detail_of (case errorData r of None \<Rightarrow> Obj [] | Some v \<Rightarrow> v) of
               Inl e \<Rightarrow> Inl e
             | Inr None \<Rightarrow> Inl (Error (''Upload failed: '' @ toString (status_code r)))
             | Inr (Some d) \<Rightarrow>
                 Inl (Error (if truthy d then js_String d
                             else ''Upload failed: '' @ toString (status_code r))))
          else parsed r)"

definition getJobStatus_request :: "string \<Rightarrow> string \<Rightarrow> request" where
  "getJobStatus_request base jobId =
     \<lparr>meth = ''GET'', url = base @ ''/api/job/'' @ jobId, headers = [], body = NoBody\<rparr>"

definition getJobStatus_result :: "JobStatus fetch_result \<Rightarrow> thrown + JobStatus" where
  "getJobStatus_result fr =
     (case fr of
        Rejected e \<Rightarrow> Inl e
      | Responded r \<Rightarrow>
          if \<not> ok r then Inl (Error ''Failed to get job status'') else parsed r)"

section \<open>The polling effect\<close>

text \<open>The test \<open>status === "completed" || status === "failed"\<close>, written out three times.\<close>

definition terminal :: "string \<Rightarrow> bool" where
  "terminal s = (s = ''completed'' \<or> s = ''failed'')"

definition clearInterval :: "nat \<Rightarrow> 'a Lifecycle_scheme \<Rightarrow> 'a Lifecycle_scheme" where
  "clearInterval h c = c\<lparr>timers := filter (\<lambda>t. fst t \<noteq> h) (timers c)\<rparr>"

text \<open>
  \<open>useEffect(..., [jobStatus?.job_id, jobStatus?.status])\<close>, run after every render.
  When a dependency has changed, the cleanup of the previous run clears its interval and
  the body runs again: with no job or a terminal one it only resets \<open>isLoading\<close>,
  otherwise it starts an interval whose callback closes over the current \<open>job_id\<close>.
\<close>

definition pollEffect :: "'a Lifecycle_scheme \<Rightarrow> 'a Lifecycle_scheme" where
  "pollEffect c =
     (let deps = (map_option job_id (jobStatus c), map_option status (jobStatus c)) in
      if effectDeps c = Some deps then c
      else
        let c1 = (case effectCleanup c of None \<Rightarrow> c | Some h \<Rightarrow> clearInterval h c);
            c2 = c1\<lparr>effectDeps := Some deps, effectCleanup := None\<rparr>
        in case jobStatus c2 of
             None \<Rightarrow> c2\<lparr>isLoading := False\<rparr>
           | Some js \<Rightarrow>
               if terminal (status js) then c2\<lparr>isLoading := False\<rparr>
               else c2\<lparr>timers := timers c2 @ [(nextTimer c2, job_id js)],
                       effectCleanup := Some (nextTimer c2),
                       nextTimer := Suc (nextTimer c2)\<rparr>)"

text \<open>
  The interval callback up to its \<open>await\<close>: a tick of a running timer issues the status
  request for the \<open>job_id\<close> it closed over; a tick of a cleared timer does nothing.
\<close>

definition tick :: "nat \<Rightarrow> 'a Lifecycle_scheme \<Rightarrow> 'a Lifecycle_scheme" where
  "tick h c =
     (case map_of (timers c) h of
        None \<Rightarrow> c
      | Some jobId \<Rightarrow>
          c\<lparr>requests := requests c @ [getJobStatus_request (API_BASE c) jobId],
            inflight := inflight c @ [h]\<rparr>)"

text \<open>
  The rest of the callback, when the \<open>k\<close>-th outstanding poll settles with \<open>fr\<close>; the
  component then renders and the effect runs.
\<close>

definition pollSettled :: "nat \<Rightarrow> JobStatus fetch_result \<Rightarrow> 'a Lifecycle_scheme \<Rightarrow> 'a Lifecycle_scheme" where
  "pollSettled k fr c =
     (if k < length (inflight c) then
        let interval = inflight c ! k;
            c0 = c\<lparr>inflight := take k (inflight c) @ drop (Suc k) (inflight c)\<rparr>
        in case getJobStatus_result fr of
             Inr st \<Rightarrow>
               let c1 = c0\<lparr>jobStatus := Some st\<rparr>;
                   c2 = (if terminal (status st)
                         then clearInterval interval (c1\<lparr>isLoading := False\<rparr>)
                         else c1)
               in pollEffect c2
           | Inl err \<Rightarrow> c0\<lparr>console := console c0 @ [(''Failed to get job status:'', err)]\<rparr>
      else c)"

section \<open>Submission\<close>

definition pendingJob :: "string \<Rightarrow> JobStatus" where
  "pendingJob jobId =
     \<lparr>job_id = jobId, status = ''pending'', progress = 0, message = ''Starting...'',
      company_name = None, industry = None, download_url = None, filename = None,
      validation = None\<rparr>"

text \<open>
  The call chosen inside \<open>try\<close>, by tab: the request and what the API function settles
  with; \<open>None\<close> is the final \<open>else { return; }\<close>.
\<close>

definition handleGenerate_call :: "string fetch_result \<Rightarrow> Home \<Rightarrow> (request \<times> (thrown + string)) option" where
  "handleGenerate_call fr c =
     (case activeTab c of
        Stocks \<Rightarrow>
          (case selectedStock c of
             None \<Rightarrow> None
           | Some s \<Rightarrow>
               Some (generateModel_request (API_BASE c) (symbol s) (forecastYears c),
                     generateModel_result fr))
      | Excel \<Rightarrow>
          (case excelFile c of
             None \<Rightarrow> None
           | Some f \<Rightarrow>
               Some (uploadExcelFile_request (API_BASE c) f
                       (if excelCompanyName c \<noteq> [] then excelCompanyName c
                        else strip_xlsx (file_name f))
                       (excelIndustry c) (forecastYears c),
                     uploadExcelFile_result fr))
      | Lbo \<Rightarrow>
          (case selectedStock c of
             None \<Rightarrow> None
           | Some s \<Rightarrow>
               Some (generateLBOModel_request (API_BASE c)
                       (JObj ([(''symbol'', JStr (symbol s)), (''exchange'', JStr ''NSE'')]
                              @ lboAssumptions_members (lboAssumptions c))),
                     generateLBOModel_result fr))
      | Ma \<Rightarrow>
          (case acquirerStock c of
             None \<Rightarrow> None
           | Some a \<Rightarrow>
               (case targetStock c of
                  None \<Rightarrow> None
                | Some t \<Rightarrow>
                    Some (generateMAModel_request (API_BASE c)
                            (JObj ([(''acquirer_symbol'', JStr (symbol a)),
                                    (''target_symbol'', JStr (symbol t)),
                                    (''exchange'', JStr ''NSE'')]
                                   @ maAssumptions_members (maAssumptions c))),
                          generateMAModel_result fr)))
      | Compare \<Rightarrow> None)"

text \<open>
  \<open>handleGenerate\<close> of the current variant. The four guards return before anything is
  touched. Otherwise the three setters run and the call of the tab is made, which
  issues its request; the component renders, so the effect runs; and when the fetch has
  settled with \<open>fr\<close> the handler resumes, sets the pending job or the error, and the
  component renders again.
\<close>

definition handleGenerate :: "string fetch_result \<Rightarrow> Home \<Rightarrow> Home" where
  "handleGenerate fr c =
     (if activeTab c = Stocks \<and> selectedStock c = None then c
      else if activeTab c = Excel \<and> excelFile c = None then c
      else if activeTab c = Lbo \<and> selectedStock c = None then c
      else if activeTab c = Ma \<and> (acquirerStock c = None \<or> targetStock c = None) then c
      else
        let c1 = c\<lparr>isLoading := True, error := None, jobStatus := None\<rparr> in
        case handleGenerate_call fr c of
          None \<Rightarrow> pollEffect c1
        | Some (req, res) \<Rightarrow>
            let c2 = pollEffect (c1\<lparr>requests := requests c1 @ [req]\<rparr>) in
            (case res of
               Inr jobId \<Rightarrow> pollEffect (c2\<lparr>jobStatus := Some (pendingJob jobId)\<rparr>)
             | Inl err \<Rightarrow>
                 pollEffect
                   (c2\<lparr>error := Some (case err of
                                         Error m \<Rightarrow> m
                                       | NonError \<Rightarrow> ''Failed to start model generation. Please try again.''),
                       isLoading := False\<rparr>)))"

text \<open>\<open>handleGenerate\<close> of the older variant: two tabs, one fixed error text.\<close>

definition handleGenerate_v0 :: "string fetch_result \<Rightarrow> Home_v0 \<Rightarrow> Home_v0" where
  "handleGenerate_v0 fr c =
     (if activeTab_v0 c = Stocks_v0 \<and> selectedStock c = None then c
      else if activeTab_v0 c = Raw_v0 \<and> trim (raw_company_name (rawData c)) = [] then c
      else
        let c1 = c\<lparr>isLoading := True, error := None, jobStatus := None\<rparr>;
            (req, res) =
              (case (activeTab_v0 c, selectedStock c) of
                 (Stocks_v0, Some s) \<Rightarrow>
                   (generateModel_request API_BASE_v0 (symbol s) (forecastYears c),
                    generateModel_result fr)
               | _ \<Rightarrow>
                   (generateRawModel_request API_BASE_v0 (rawData c),
                    generateRawModel_result fr));
            c2 = pollEffect (c1\<lparr>requests := requests c1 @ [req]\<rparr>)
        in case res of
             Inr jobId \<Rightarrow> pollEffect (c2\<lparr>jobStatus := Some (pendingJob jobId)\<rparr>)
           | Inl err \<Rightarrow>
               pollEffect
                 (c2\<lparr>error := Some ''Failed to start model generation. Please try again.'',
                     isLoading := False\<rparr>))"

text \<open>
  The two halves of \<open>handleGenerate\<close> on their own, for runs in which something else
  happens while the request is out: the part up to the \<open>await\<close> with the render that
  follows it (the request does not depend on how the fetch will settle), and the part
  after it, given what the API function settled with.
\<close>

definition handleGenerate_begin :: "Home \<Rightarrow> Home" where
  "handleGenerate_begin c =
     (if activeTab c = Stocks \<and> selectedStock c = None then c
      else if activeTab c = Excel \<and> excelFile c = None then c
      else if activeTab c = Lbo \<and> selectedStock c = None then c
      else if activeTab c = Ma \<and> (acquirerStock c = None \<or> targetStock c = None) then c
      else
        let c1 = c\<lparr>isLoading := True, error := None, jobStatus := None\<rparr> in
        case handleGenerate_call (Rejected NonError) c of
          None \<Rightarrow> pollEffect c1
        | Some (req, res) \<Rightarrow> pollEffect (c1\<lparr>requests := requests c1 @ [req]\<rparr>))"

definition handleGenerate_settled :: "thrown + string \<Rightarrow> Home \<Rightarrow> Home" where
  "handleGenerate_settled res c2 =
     (case res of
        Inr jobId \<Rightarrow> pollEffect (c2\<lparr>jobStatus := Some (pendingJob jobId)\<rparr>)
      | Inl err \<Rightarrow>
          pollEffect
            (c2\<lparr>error := Some (case err of
                                  Error m \<Rightarrow> m
                                | NonError \<Rightarrow> ''Failed to start model generation. Please try again.''),
                isLoading := False\<rparr>))"

text \<open>
  The configuration block with the Generate button, the only caller of
  \<open>handleGenerate\<close>, is rendered under \<open>{!jobStatus && (...)}\<close> in both variants: a submit
  can reach the page only while no job is shown.
\<close>

definition generate_rendered :: "'a Lifecycle_scheme \<Rightarrow> bool" where
  "generate_rendered c = (jobStatus c = None)"

section \<open>Download and export\<close>

definition downloadExportFile_request :: "string \<Rightarrow> string \<Rightarrow> string \<Rightarrow> request" where
  "downloadExportFile_request base jobId format =
     \<lparr>meth = ''GET'', url = base @ ''/api/export/'' @ jobId @ ''/'' @ format,
      headers = [], body = NoBody\<rparr>"

text \<open>\<open>downloadExportFile\<close> settles with the file it saved, or throws.\<close>

definition downloadExportFile_result :: "string \<Rightarrow> unit fetch_result \<Rightarrow> thrown + (string \<times> string)" where
  "downloadExportFile_result format fr =
     (case fr of
        Rejected e \<Rightarrow> Inl e
      | Responded r \<Rightarrow>
          if \<not> ok r then Inl (Error (''Export failed: '' @ format))
          else Inr (''model.'' @ format, blob r))"

text \<open>
  The three buttons are rendered only for a completed job with a truthy
  \<open>download_url\<close>; elsewhere there is nothing to click. The job and that URL:
\<close>

definition downloadable :: "'a Lifecycle_scheme \<Rightarrow> (JobStatus \<times> string) option" where
  "downloadable c =
     (case jobStatus c of
        None \<Rightarrow> None
      | Some js \<Rightarrow>
          (case download_url js of
             None \<Rightarrow> None
           | Some u \<Rightarrow> if status js = ''completed'' \<and> u \<noteq> [] then Some (js, u) else None))"

text \<open>
  The click handler of the Excel download link:
  \<open>fetch(url).then(res => res.blob()).then(blob => save)\<close>, with
  \<open>a.download = jobStatus.filename || 'financial_model.xlsx'\<close>. The chain neither looks
  at \<open>res.ok\<close> nor has a \<open>catch\<close>: any response is saved, a rejection is dropped.
\<close>

definition downloadExcel_onClick :: "unit fetch_result \<Rightarrow> Home \<Rightarrow> Home" where
  "downloadExcel_onClick fr c =
     (case downloadable c of
        None \<Rightarrow> c
      | Some (js, u) \<Rightarrow>
          let c1 = c\<lparr>requests := requests c @
                      [\<lparr>meth = ''GET'', url = u,
                        headers = [], body = NoBody\<rparr>]\<rparr>
          in (case fr of
                Rejected e \<Rightarrow> c1
              | Responded r \<Rightarrow>
                  c1\<lparr>saved := saved c1 @
                       [(case filename js of
                           None \<Rightarrow> ''financial_model.xlsx''
                         | Some f \<Rightarrow> if f \<noteq> [] then f else ''financial_model.xlsx'',
                         blob r)]\<rparr>))"

definition exportPdf_onClick :: "unit fetch_result \<Rightarrow> Home \<Rightarrow> Home" where
  "exportPdf_onClick fr c =
     (case downloadable c of
        None \<Rightarrow> c
      | Some (js, u) \<Rightarrow>
          let c1 = c\<lparr>requests := requests c @
                      [downloadExportFile_request (API_BASE c) (job_id js) ''pdf'']\<rparr>
          in (case downloadExportFile_result ''pdf'' fr of
                Inr file \<Rightarrow> c1\<lparr>saved := saved c1 @ [file]\<rparr>
              | Inl err \<Rightarrow> c1\<lparr>alerts := alerts c1 @ [''PDF export failed. Please try again.'']\<rparr>))"

definition exportPptx_onClick :: "unit fetch_result \<Rightarrow> Home \<Rightarrow> Home" where
  "exportPptx_onClick fr c =
     (case downloadable c of
        None \<Rightarrow> c
      | Some (js, u) \<Rightarrow>
          let c1 = c\<lparr>requests := requests c @
                      [downloadExportFile_request (API_BASE c) (job_id js) ''pptx'']\<rparr>
          in (case downloadExportFile_result ''pptx'' fr of
                Inr file \<Rightarrow> c1\<lparr>saved := saved c1 @ [file]\<rparr>
              | Inl err \<Rightarrow>
                  c1\<lparr>alerts := alerts c1 @ [''PowerPoint export failed. Please try again.'']\<rparr>))"

section \<open>The comparison selection\<close>

text \<open>The click handlers of a search result and of the remove button of a selected stock.\<close>

definition compareAdd_onClick :: "Stock \<Rightarrow> Home \<Rightarrow> Home" where
  "compareAdd_onClick stock c =
     (if find (\<lambda>s. symbol s = symbol stock) (compareStocks c) = None
         \<and> length (compareStocks c) < 5
      then c\<lparr>compareStocks := compareStocks c @ [stock],
             compareSearch := [],
             compareSearchResults := []\<rparr>
      else c)"

definition compareRemove_onClick :: "Stock \<Rightarrow> Home \<Rightarrow> Home" where
  "compareRemove_onClick stock c =
     c\<lparr>compareStocks := filter (\<lambda>s. symbol s \<noteq> symbol stock) (compareStocks c)\<rparr>"

section \<open>The page as a transition system\<close>

text \<open>
  The remaining handlers that write the cells read above: picking a stock in the grid
  (which also drops the job and the error), picking or clearing one in a search box,
  choosing a file, a tab, the M&A parties, and the button shown under a finished job.
\<close>

definition selectStock_onClick :: "Stock \<Rightarrow> Home \<Rightarrow> Home" where
  "selectStock_onClick stock c =
     pollEffect (c\<lparr>selectedStock := Some stock, jobStatus := None, error := None\<rparr>)"

definition generateAnother_onClick :: "Home \<Rightarrow> Home" where
  "generateAnother_onClick c =
     (case jobStatus c of
        None \<Rightarrow> c
      | Some js \<Rightarrow>
          if terminal (status js)
          then pollEffect (c\<lparr>jobStatus := None, selectedStock := None,
                              excelFile := None, excelCompanyName := []\<rparr>)
          else c)"

datatype event =
    Generate "string fetch_result"
  | Tick nat
  | PollSettled nat "JobStatus fetch_result"
  | SelectStock Stock
  | SetSelectedStock "Stock option"
  | SetActiveTab TabType
  | SetForecastYears nat
  | SetExcelFile "File option"
  | SetAcquirerStock "Stock option"
  | SetTargetStock "Stock option"
  | GenerateAnother
  | DownloadExcel "unit fetch_result"
  | ExportPdf "unit fetch_result"
  | ExportPptx "unit fetch_result"
  | CompareAdd Stock
  | CompareRemove Stock

fun step :: "Home \<Rightarrow> event \<Rightarrow> Home" where
  "step c (Generate fr) = handleGenerate fr c"
| "step c (Tick h) = tick h c"
| "step c (PollSettled k fr) = pollSettled k fr c"
| "step c (SelectStock s) = selectStock_onClick s c"
| "step c (SetSelectedStock s) = c\<lparr>selectedStock := s\<rparr>"
| "step c (SetActiveTab t) = c\<lparr>activeTab := t\<rparr>"
| "step c (SetForecastYears n) = c\<lparr>forecastYears := n\<rparr>"
| "step c (SetExcelFile f) = c\<lparr>excelFile := f\<rparr>"
| "step c (SetAcquirerStock s) = c\<lparr>acquirerStock := s\<rparr>"
| "step c (SetTargetStock s) = c\<lparr>targetStock := s\<rparr>"
| "step c GenerateAnother = generateAnother_onClick c"
| "step c (DownloadExcel fr) = downloadExcel_onClick fr c"
| "step c (ExportPdf fr) = exportPdf_onClick fr c"
| "step c (ExportPptx fr) = exportPptx_onClick fr c"
| "step c (CompareAdd s) = compareAdd_onClick s c"
| "step c (CompareRemove s) = compareRemove_onClick s c"

definition run :: "Home \<Rightarrow> event list \<Rightarrow> Home" where
  "run c evs = foldl step c evs"

text \<open>The component after its first render: the initial cells, the effect run once.\<close>

definition initialHome :: "string \<Rightarrow> Home" where
  "initialHome node_env =
     pollEffect
       \<lparr>selectedStock = None, forecastYears = 5, jobStatus = None, error = None,
        isLoading = False, API_BASE = API_BASE_of node_env, timers = [], nextTimer = 0,
        effectDeps = None, effectCleanup = None, inflight = [], requests = [],
        console = [], alerts = [], saved = [],
        activeTab = Stocks, excelFile = None, excelCompanyName = [],
        excelIndustry = ''general'',
        lboAssumptions =
          \<lparr>holding_period = 5, entry_multiple = 8, exit_multiple = 8,
           senior_debt_multiple = 3, senior_interest_rate = 8 / 100,
           mezz_debt_multiple = 3 / 2, mezz_interest_rate = 12 / 100,
           sub_debt_multiple = 1 / 2, sub_interest_rate = 14 / 100,
           revenue_growth = 8 / 100, ebitda_margin = 25 / 100\<rparr>,
        acquirerStock = None, targetStock = None,
        maAssumptions =
          \<lparr>offer_premium = 25 / 100, percent_stock = 50 / 100, percent_cash = 50 / 100,
           synergies_revenue = 0, synergies_cost = 0,
           acquirer_growth_rate = 5 / 100, target_growth_rate = 5 / 100\<rparr>,
        compareStocks = [], compareSearch = [], compareSearchResults = []\<rparr>"

definition initialHome_v0 :: Home_v0 where
  "initialHome_v0 =
     pollEffect
       \<lparr>selectedStock = None, forecastYears = 5, jobStatus = None, error = None,
        isLoading = False, API_BASE = API_BASE_v0, timers = [], nextTimer = 0,
        effectDeps = None, effectCleanup = None, inflight = [], requests = [],
        console = [], alerts = [], saved = [],
        activeTab_v0 = Stocks_v0,
        rawData =
          \<lparr>raw_company_name = [], raw_industry = ''general'', raw_forecast_years = 5,
           historical_data =
             JObj [(''income_statement'',
                    JObj [(''revenue'', JNum 10000), (''ebitda'', JNum 2500),
                          (''net_income'', JNum 1500)]),
                   (''balance_sheet'',
                    JObj [(''total_assets'', JNum 20000),
                          (''total_liabilities'', JNum 8000)])],
           assumptions =
             JObj [(''revenue_growth'', JNum (10 / 100)),
                   (''ebitda_margin'', JNum (25 / 100)),
                   (''tax_rate'', JNum (25 / 100))]\<rparr>\<rparr>"

section \<open>Properties and concrete inputs\<close>

text \<open>The comparison selection is well formed: no symbol twice, at most five stocks.\<close>

definition compare_ok :: "Stock list \<Rightarrow> bool" where
  "compare_ok xs = (distinct (map symbol xs) \<and> length xs \<le> 5)"

definition stockOf :: "string \<Rightarrow> Stock" where
  "stockOf s = \<lparr>symbol = s, name = s, sector = ''IT'', sector_code = None\<rparr>"

text \<open>
  The effect has run for the current job, and the only timer running is the one it
  started: none without a job or under a terminal status, exactly one otherwise, closed
  over the job's \<open>job_id\<close>.
\<close>

definition lifecycle_ok :: "'a Lifecycle_scheme \<Rightarrow> bool" where
  "lifecycle_ok c =
     (effectDeps c = Some (map_option job_id (jobStatus c), map_option status (jobStatus c))
      \<and> (case jobStatus c of
            None \<Rightarrow> timers c = [] \<and> effectCleanup c = None
          | Some js \<Rightarrow>
              if terminal (status js)
              then timers c = [] \<and> effectCleanup c = None
              else (case effectCleanup c of
                      None \<Rightarrow> False
                    | Some h \<Rightarrow> timers c = [(h, job_id js)])))"

text \<open>Timer ticks, one after the other, for the given handles.\<close>

definition ticks :: "nat list \<Rightarrow> 'a Lifecycle_scheme \<Rightarrow> 'a Lifecycle_scheme" where
  "ticks hs c = foldl (\<lambda>c' h. tick h c') c hs"

text \<open>Concrete backend answers: a 200 with a JSON value, a failure status, a job snapshot.\<close>

definition okJson :: "'a \<Rightarrow> 'a fetch_result" where
  "okJson v =
     Responded \<lparr>ok = True, status_code = 200, parsed = Inr v, errorData = None, blob = []\<rparr>"

definition notOk :: "nat \<Rightarrow> jsval option \<Rightarrow> string \<Rightarrow> 'a fetch_result" where
  "notOk code d bytes =
     Responded \<lparr>ok = False, status_code = code, parsed = Inl (Error ''Unexpected token''),
                errorData = d, blob = bytes\<rparr>"

definition snapshotOf :: "string \<Rightarrow> string \<Rightarrow> int \<Rightarrow> JobStatus" where
  "snapshotOf jobId st p =
     \<lparr>job_id = jobId, status = st, progress = p, message = [],
      company_name = None, industry = None, download_url = None, filename = None,
      validation = None\<rparr>"

text \<open>
  A submission variant lacks a required field: no stock for the stock and LBO variants, no
  file for the upload variant, acquirer or target missing for the M&A variant; in the
  older page, no stock for the stock variant or an empty company name for the raw-data
  variant.
\<close>

definition missing_required :: "Home \<Rightarrow> bool" where
  "missing_required c =
     (activeTab c = Stocks \<and> selectedStock c = None
      \<or> activeTab c = Lbo \<and> selectedStock c = None
      \<or> activeTab c = Excel \<and> excelFile c = None
      \<or> activeTab c = Ma \<and> (acquirerStock c = None \<or> targetStock c = None))"

definition missing_required_v0 :: "Home_v0 \<Rightarrow> bool" where
  "missing_required_v0 c =
     (activeTab_v0 c = Stocks_v0 \<and> selectedStock c = None
      \<or> activeTab_v0 c = Raw_v0 \<and> raw_company_name (rawData c) = [])"

text \<open>
  Polling as the shared lifecycle sees it: timers tick and outstanding polls settle, in
  any order, so that polls may overlap and their responses may come back in another
  order than the requests went out.
\<close>

datatype poll_event = Ticked nat | Answered nat "JobStatus fetch_result"

fun pollStep :: "'a Lifecycle_scheme \<Rightarrow> poll_event \<Rightarrow> 'a Lifecycle_scheme" where
  "pollStep c (Ticked h) = tick h c"
| "pollStep c (Answered k fr) = pollSettled k fr c"

definition polls :: "'a Lifecycle_scheme \<Rightarrow> poll_event list \<Rightarrow> 'a Lifecycle_scheme" where
  "polls c evs = foldl pollStep c evs"

text \<open>
  The report that an event hands to the callback, if any: the \<open>k\<close>-th outstanding poll
  exists and \<open>getJobStatus\<close> returns a snapshot for it.
\<close>

fun arrival :: "'a Lifecycle_scheme \<Rightarrow> poll_event \<Rightarrow> JobStatus option" where
  "arrival c (Ticked h) = None"
| "arrival c (Answered k fr) =
     (if k < length (inflight c)
      then (case getJobStatus_result fr of Inr st \<Rightarrow> Some st | Inl err \<Rightarrow> None)
      else None)"

text \<open>The reports in the order in which they reach the client during a run.\<close>

fun arrivals :: "'a Lifecycle_scheme \<Rightarrow> poll_event list \<Rightarrow> JobStatus list" where
  "arrivals c [] = []"
| "arrivals c (ev # evs) =
     (case arrival c ev of
        None \<Rightarrow> arrivals (pollStep c ev) evs
      | Some st \<Rightarrow> st # arrivals (pollStep c ev) evs)"

text \<open>The snapshots the client holds at the start of a run and after each of its events.\<close>

fun held :: "'a Lifecycle_scheme \<Rightarrow> poll_event list \<Rightarrow> JobStatus option list" where
  "held c [] = [jobStatus c]"
| "held c (ev # evs) = jobStatus c # held (pollStep c ev) evs"



text \<open>
  Concrete states of the page in production: TCS submitted and accepted as job
  \<open>job-1\<close>; the same with the first poll on its way; with two polls on their way; the
  job finished with a download; the first poll on its way when another stock is picked
  in the grid; and a workbook chosen in the upload tab.
\<close>

definition submittedTCS :: Home where
  "submittedTCS =
     run (initialHome ''production'') [SelectStock (stockOf ''TCS''), Generate (okJson ''job-1'')]"

definition pollingTCS :: Home where
  "pollingTCS = run submittedTCS [Tick 0]"

definition overlappingTCS :: Home where
  "overlappingTCS = run submittedTCS [Tick 0, Tick 0]"

definition finishedJob :: "string option \<Rightarrow> JobStatus" where
  "finishedJob fname =
     (snapshotOf ''job-1'' ''completed'' 100)\<lparr>download_url := Some ''/x'', filename := fname\<rparr>"

definition finishedTCS :: "string option \<Rightarrow> Home" where
  "finishedTCS fname = run pollingTCS [PollSettled 0 (okJson (finishedJob fname))]"

definition reselected :: Home where
  "reselected = run pollingTCS [SelectStock (stockOf ''INFY'')]"

definition workbookChosen :: Home where
  "workbookChosen =
     run (initialHome ''production'')
       [SetActiveTab Excel,
        SetExcelFile (Some \<lparr>file_name = ''acme.xlsx'', file_bytes = ''PK34''\<rparr>)]"

section \<open>The comparison selection stays well formed\<close>

lemma compareStocks_pollEffect [simp]: "compareStocks (pollEffect c) = compareStocks c"
  by (simp add: pollEffect_def clearInterval_def Let_def split: option.splits)

lemma compareStocks_tick [simp]: "compareStocks (tick h c) = compareStocks c"
  by (simp add: tick_def split: option.splits)

lemma compareStocks_pollSettled [simp]:
  "compareStocks (pollSettled k fr c) = compareStocks c"
  by (simp add: pollSettled_def clearInterval_def Let_def split: option.splits sum.splits)

lemma compareStocks_handleGenerate [simp]:
  "compareStocks (handleGenerate fr c) = compareStocks c"
  by (simp add: handleGenerate_def Let_def split: option.splits sum.splits prod.splits)

lemma compareStocks_download [simp]:
  "compareStocks (downloadExcel_onClick fr1 c) = compareStocks c"
  "compareStocks (exportPdf_onClick fr1 c) = compareStocks c"
  "compareStocks (exportPptx_onClick fr1 c) = compareStocks c"
  by (simp_all add: downloadExcel_onClick_def exportPdf_onClick_def exportPptx_onClick_def
      Let_def split: option.splits sum.splits prod.splits fetch_result.splits)

lemma compareStocks_other [simp]:
  "compareStocks (selectStock_onClick s c) = compareStocks c"
  "compareStocks (generateAnother_onClick c) = compareStocks c"
  by (simp_all add: selectStock_onClick_def generateAnother_onClick_def split: option.splits)

lemma find_symbol_None:
  "find (\<lambda>s. symbol s = symbol stock) xs = None \<Longrightarrow> symbol stock \<notin> symbol ` set xs"
  by (auto simp: find_None_iff)

lemma compare_ok_add:
  "compare_ok (compareStocks c) \<Longrightarrow> compare_ok (compareStocks (compareAdd_onClick stock c))"
  by (auto simp: compare_ok_def compareAdd_onClick_def dest: find_symbol_None)

lemma compare_ok_remove:
  "compare_ok (compareStocks c) \<Longrightarrow> compare_ok (compareStocks (compareRemove_onClick stock c))"
  by (auto simp: compare_ok_def compareRemove_onClick_def distinct_map_filter
      intro: le_trans [OF length_filter_le])

lemma compare_ok_step:
  "compare_ok (compareStocks c) \<Longrightarrow> compare_ok (compareStocks (step c ev))"
  by (cases ev) (simp_all add: compare_ok_add compare_ok_remove)

lemma compare_ok_run:
  "compare_ok (compareStocks c) \<Longrightarrow> compare_ok (compareStocks (run c evs))"
  unfolding run_def by (induction evs arbitrary: c) (simp_all add: compare_ok_step)

lemma compareStocks_initialHome: "compareStocks (initialHome node_env) = []"
  by (simp add: initialHome_def)

text \<open>
  Claim C10. Whatever the user and the backend do after the page has loaded, the
  comparison selection holds no two stocks with the same symbol and at most five stocks:
  the add handler checks both before it appends, the remove handler only filters, and no
  other handler writes the list.
\<close>

theorem compareStocks_distinct_at_most_5:
  "distinct (map symbol (compareStocks (run (initialHome node_env) evs)))
   \<and> length (compareStocks (run (initialHome node_env) evs)) \<le> 5"
proof -
  have "compare_ok (compareStocks (initialHome node_env))"
    by (simp add: compareStocks_initialHome compare_ok_def)
  then have "compare_ok (compareStocks (run (initialHome node_env) evs))"
    by (rule compare_ok_run)
  then show ?thesis
    by (simp add: compare_ok_def)
qed

text \<open>
  A run that adds a duplicate and a sixth stock, and removes one: the duplicate and the
  sixth are refused.
\<close>

theorem compareStocks_distinct_at_most_5_witness:
  "map symbol (compareStocks (run (initialHome ''production'')
      [CompareAdd (stockOf ''TCS''), CompareAdd (stockOf ''TCS''), CompareAdd (stockOf ''INFY''),
       CompareAdd (stockOf ''WIPRO''), CompareRemove (stockOf ''INFY''),
       CompareAdd (stockOf ''HCLTECH''), CompareAdd (stockOf ''TECHM''),
       CompareAdd (stockOf ''LTIM''), CompareAdd (stockOf ''MPHASIS'')]))
     = [''TCS'', ''WIPRO'', ''HCLTECH'', ''TECHM'', ''LTIM'']
   \<and> distinct (map symbol (compareStocks (run (initialHome ''production'')
      [CompareAdd (stockOf ''TCS''), CompareAdd (stockOf ''TCS''), CompareAdd (stockOf ''INFY''),
       CompareAdd (stockOf ''WIPRO''), CompareRemove (stockOf ''INFY''),
       CompareAdd (stockOf ''HCLTECH''), CompareAdd (stockOf ''TECHM''),
       CompareAdd (stockOf ''LTIM''), CompareAdd (stockOf ''MPHASIS'')])))"
  using compareStocks_distinct_at_most_5 [of "''production''"
      "[CompareAdd (stockOf ''TCS''), CompareAdd (stockOf ''TCS''), CompareAdd (stockOf ''INFY''),
       CompareAdd (stockOf ''WIPRO''), CompareRemove (stockOf ''INFY''),
       CompareAdd (stockOf ''HCLTECH''), CompareAdd (stockOf ''TECHM''),
       CompareAdd (stockOf ''LTIM''), CompareAdd (stockOf ''MPHASIS'')]"]
  by (simp add: run_def compareAdd_onClick_def compareRemove_onClick_def stockOf_def
      compareStocks_initialHome)

section \<open>The effect owns the only timer\<close>

lemma jobStatus_pollEffect [simp]: "jobStatus (pollEffect c) = jobStatus c"
  by (simp add: pollEffect_def clearInterval_def Let_def split: option.splits)

lemma lifecycle_ok_pollEffect:
  assumes "lifecycle_ok c" "timers c' = timers c" "effectDeps c' = effectDeps c" "effectCleanup c' = effectCleanup c"
  shows "lifecycle_ok (pollEffect c')"
  using assms
  by (auto simp: lifecycle_ok_def pollEffect_def clearInterval_def Let_def split: option.splits if_splits)

lemma lifecycle_ok_tick: "lifecycle_ok c \<Longrightarrow> lifecycle_ok (tick h c)"
  by (auto simp: lifecycle_ok_def tick_def split: option.splits if_splits)

lemma lifecycle_ok_pollSettled: "lifecycle_ok c \<Longrightarrow> lifecycle_ok (pollSettled k fr c)"
  by (auto simp: lifecycle_ok_def pollSettled_def pollEffect_def clearInterval_def Let_def split: option.splits if_splits sum.splits)

lemma lifecycle_ok_cong:
  "lifecycle_ok c \<Longrightarrow> timers c' = timers c \<Longrightarrow> effectDeps c' = effectDeps c \<Longrightarrow> effectCleanup c' = effectCleanup c
   \<Longrightarrow> jobStatus c' = jobStatus c \<Longrightarrow> lifecycle_ok c'"
  by (auto simp: lifecycle_ok_def split: option.splits if_splits)

lemma lifecycle_ok_resume:
  assumes "lifecycle_ok c2"
  shows "lifecycle_ok
    (case res of
       Inr jobId \<Rightarrow> pollEffect (c2\<lparr>jobStatus := Some (pendingJob jobId)\<rparr>)
     | Inl err \<Rightarrow> pollEffect (c2\<lparr>error := Some (shown err), isLoading := False\<rparr>))"
  by (cases res) (auto intro!: lifecycle_ok_pollEffect [OF assms])

lemma lifecycle_ok_handleGenerate:
  assumes ok: "lifecycle_ok c"
  shows "lifecycle_ok (handleGenerate fr c)"
proof -
  have *: "\<And>c'. timers c' = timers c \<Longrightarrow> effectDeps c' = effectDeps c \<Longrightarrow>
    effectCleanup c' = effectCleanup c \<Longrightarrow> lifecycle_ok (pollEffect c')"
    by (rule lifecycle_ok_pollEffect [OF ok])
  show ?thesis
    unfolding handleGenerate_def Let_def using ok
    by (auto split: option.splits prod.splits intro!: lifecycle_ok_resume *)
qed

lemma lifecycle_ok_handleGenerate_v0:
  assumes ok: "lifecycle_ok c"
  shows "lifecycle_ok (handleGenerate_v0 fr c)"
proof -
  have *: "\<And>c'. timers c' = timers c \<Longrightarrow> effectDeps c' = effectDeps c \<Longrightarrow>
    effectCleanup c' = effectCleanup c \<Longrightarrow> lifecycle_ok (pollEffect c')"
    by (rule lifecycle_ok_pollEffect [OF ok])
  show ?thesis
    unfolding handleGenerate_v0_def Let_def using ok
    by (auto split: option.splits prod.splits
        intro!: lifecycle_ok_resume [where shown = "\<lambda>err. ''Failed to start model generation. Please try again.''"] *)
qed

lemma lifecycle_ok_step:
  assumes ok: "lifecycle_ok c"
  shows "lifecycle_ok (step c ev)"
proof -
  have *: "\<And>c'. timers c' = timers c \<Longrightarrow> effectDeps c' = effectDeps c \<Longrightarrow>
    effectCleanup c' = effectCleanup c \<Longrightarrow> lifecycle_ok (pollEffect c')"
    by (rule lifecycle_ok_pollEffect [OF ok])
  have **: "\<And>c'. timers c' = timers c \<Longrightarrow> effectDeps c' = effectDeps c \<Longrightarrow>
    effectCleanup c' = effectCleanup c \<Longrightarrow> jobStatus c' = jobStatus c \<Longrightarrow> lifecycle_ok c'"
    by (rule lifecycle_ok_cong [OF ok])
  show ?thesis
  proof (cases ev)
    case (Generate fr) then show ?thesis using ok by (simp add: lifecycle_ok_handleGenerate)
  next
    case (Tick h) then show ?thesis using ok by (simp add: lifecycle_ok_tick)
  next
    case (PollSettled k fr) then show ?thesis using ok by (simp add: lifecycle_ok_pollSettled)
  next
    case (SelectStock s) then show ?thesis
      by (auto simp: selectStock_onClick_def intro!: *)
  next
    case GenerateAnother then show ?thesis using ok
      by (auto simp: generateAnother_onClick_def split: option.splits intro!: *)
  next
    case (DownloadExcel fr) then show ?thesis using ok
      by (auto simp: downloadExcel_onClick_def Let_def split: option.splits fetch_result.splits intro!: **)
  next
    case (ExportPdf fr) then show ?thesis using ok
      by (auto simp: exportPdf_onClick_def Let_def split: option.splits sum.splits intro!: **)
  next
    case (ExportPptx fr) then show ?thesis using ok
      by (auto simp: exportPptx_onClick_def Let_def split: option.splits sum.splits intro!: **)
  next
    case (CompareAdd s) then show ?thesis using ok
      by (auto simp: compareAdd_onClick_def intro!: **)
  next
    case (CompareRemove s) then show ?thesis using ok
      by (auto simp: compareRemove_onClick_def intro!: **)
  qed (auto intro!: **)
qed

lemma lifecycle_ok_run: "lifecycle_ok c \<Longrightarrow> lifecycle_ok (run c evs)"
  unfolding run_def by (induction evs arbitrary: c) (simp_all add: lifecycle_ok_step)

lemma lifecycle_ok_initialHome: "lifecycle_ok (initialHome node_env)"
  by (simp add: initialHome_def lifecycle_ok_def pollEffect_def Let_def)

lemma lifecycle_ok_initialHome_v0: "lifecycle_ok initialHome_v0"
  by (simp add: initialHome_v0_def lifecycle_ok_def pollEffect_def Let_def)

section \<open>Polling after a terminal status\<close>

lemma ticks_idle: "timers c = [] \<Longrightarrow> ticks hs c = c"
  by (induction hs) (simp_all add: ticks_def tick_def)

lemma jobStatus_pollSettled_ok:
  "k < length (inflight c) \<Longrightarrow> ok r \<Longrightarrow> parsed r = Inr st \<Longrightarrow>
   jobStatus (pollSettled k (Responded r) c) = Some st"
  by (simp add: pollSettled_def getJobStatus_result_def clearInterval_def Let_def)

lemma lifecycle_ok_terminal:
  "lifecycle_ok c \<Longrightarrow> jobStatus c = Some st \<Longrightarrow> terminal (status st) \<Longrightarrow> timers c = []"
  by (simp add: lifecycle_ok_def)

lemma requests_pollEffect [simp]: "requests (pollEffect c) = requests c"
  by (simp add: pollEffect_def clearInterval_def Let_def split: option.splits)

lemma requests_pollSettled [simp]: "requests (pollSettled k fr c) = requests c"
  by (simp add: pollSettled_def clearInterval_def Let_def split: option.splits sum.splits)

lemma submittedTCS_eval:
  "jobStatus submittedTCS = Some (pendingJob ''job-1'')"
  "timers submittedTCS = [(0, ''job-1'')]"
  "inflight submittedTCS = []"
  "requests submittedTCS = [generateModel_request [] ''TCS'' 5]"
  "API_BASE submittedTCS = []"
  "error submittedTCS = None"
  "alerts submittedTCS = []"
  "console submittedTCS = []"
  "activeTab submittedTCS = Stocks"
  "selectedStock submittedTCS = Some (stockOf ''TCS'')"
  "effectDeps submittedTCS = Some (Some ''job-1'', Some ''pending'')"
  "effectCleanup submittedTCS = Some 0"
  "nextTimer submittedTCS = 1"
  "isLoading submittedTCS = True"
  "saved submittedTCS = []"
  "forecastYears submittedTCS = 5"
  by (simp_all add: submittedTCS_def run_def initialHome_def selectStock_onClick_def handleGenerate_def
      handleGenerate_call_def pollEffect_def generateModel_result_def okJson_def stockOf_def
      pendingJob_def API_BASE_of_def terminal_def Let_def)

lemma lifecycle_ok_submittedTCS: "lifecycle_ok submittedTCS"
  unfolding submittedTCS_def by (intro lifecycle_ok_run lifecycle_ok_initialHome)

lemma pollingTCS_eval:
  "jobStatus pollingTCS = Some (pendingJob ''job-1'')"
  "timers pollingTCS = [(0, ''job-1'')]"
  "inflight pollingTCS = [0]"
  "requests pollingTCS = [generateModel_request [] ''TCS'' 5, getJobStatus_request [] ''job-1'']"
  "API_BASE pollingTCS = []"
  "error pollingTCS = None"
  "alerts pollingTCS = []"
  "console pollingTCS = []"
  "activeTab pollingTCS = Stocks"
  "selectedStock pollingTCS = Some (stockOf ''TCS'')"
  "effectDeps pollingTCS = Some (Some ''job-1'', Some ''pending'')"
  "effectCleanup pollingTCS = Some 0"
  "nextTimer pollingTCS = 1"
  "isLoading pollingTCS = True"
  "saved pollingTCS = []"
  "forecastYears pollingTCS = 5"
  by (simp_all add: pollingTCS_def run_def tick_def submittedTCS_eval)

lemma lifecycle_ok_pollingTCS: "lifecycle_ok pollingTCS"
  unfolding pollingTCS_def by (intro lifecycle_ok_run lifecycle_ok_submittedTCS)

lemma overlappingTCS_eval:
  "jobStatus overlappingTCS = Some (pendingJob ''job-1'')"
  "timers overlappingTCS = [(0, ''job-1'')]"
  "inflight overlappingTCS = [0, 0]"
  "requests overlappingTCS =
     [generateModel_request [] ''TCS'' 5, getJobStatus_request [] ''job-1'',
      getJobStatus_request [] ''job-1'']"
  "API_BASE overlappingTCS = []"
  "effectDeps overlappingTCS = Some (Some ''job-1'', Some ''pending'')"
  "effectCleanup overlappingTCS = Some 0"
  "nextTimer overlappingTCS = 1"
  "isLoading overlappingTCS = True"
  by (simp_all add: overlappingTCS_def run_def tick_def submittedTCS_eval)

lemma lifecycle_ok_overlappingTCS: "lifecycle_ok overlappingTCS"
  unfolding overlappingTCS_def by (intro lifecycle_ok_run lifecycle_ok_submittedTCS)

text \<open>
  What the code achieves. After an outstanding poll has settled with a successful
  response whose status is completed or failed, no timer is left, and timer ticks alone
  issue no further request.
\<close>

lemma ticks_after_terminal_report:
  assumes "lifecycle_ok c" and "k < length (inflight c)"
    and "ok r" and "parsed r = Inr st"
    and "status st = ''completed'' \<or> status st = ''failed''"
  shows "timers (pollSettled k (Responded r) c) = []
    \<and> (\<forall>hs. requests (ticks hs (pollSettled k (Responded r) c))
            = requests (pollSettled k (Responded r) c))"
proof -
  let ?c' = "pollSettled k (Responded r) c"
  have "lifecycle_ok ?c'"
    using assms(1) by (rule lifecycle_ok_pollSettled)
  moreover have "jobStatus ?c' = Some st"
    using assms(2-4) by (rule jobStatus_pollSettled_ok)
  moreover have "terminal (status st)"
    using assms(5) by (simp add: terminal_def)
  ultimately have "timers ?c' = []"
    by (rule lifecycle_ok_terminal)
  then show ?thesis
    by (simp add: ticks_idle)
qed

text \<open>
  When that poll was the only one outstanding, nothing that polling can still produce, a
  tick or an answer, changes the page: polling has stopped for good.
\<close>

lemma polls_idle: "timers c = [] \<Longrightarrow> inflight c = [] \<Longrightarrow> polls c evs = c"
proof (induction evs)
  case Nil
  show ?case by (simp add: polls_def)
next
  case (Cons ev evs)
  have "pollStep c ev = c"
    using Cons.prems by (cases ev) (simp_all add: tick_def pollSettled_def)
  with Cons show ?case by (simp add: polls_def)
qed

lemma inflight_pollSettled:
  "k < length (inflight c) \<Longrightarrow>
   inflight (pollSettled k fr c) = take k (inflight c) @ drop (Suc k) (inflight c)"
  by (simp add: pollSettled_def pollEffect_def clearInterval_def Let_def
      split: sum.splits option.splits)

lemma sequential_polling_stops:
  assumes "lifecycle_ok c" and "inflight c = [h]"
    and "ok r" and "parsed r = Inr st"
    and "status st = ''completed'' \<or> status st = ''failed''"
  shows "polls (pollSettled 0 (Responded r) c) evs = pollSettled 0 (Responded r) c"
proof (rule polls_idle)
  show "timers (pollSettled 0 (Responded r) c) = []"
    using ticks_after_terminal_report [OF assms(1) _ assms(3-5), of 0] assms(2) by simp
  show "inflight (pollSettled 0 (Responded r) c) = []"
    using assms(2) by (simp add: inflight_pollSettled)
qed

text \<open>
  Claim C1, at the input where the code departs from it. Two polls for \<open>job-1\<close> are
  outstanding, three requests having gone out. The second is answered first, with
  \<open>completed\<close>: the snapshot is the completed job and no timer is left. Then the answer
  to the first arrives, \<open>running\<close> at 80. The callback stores it, the effect sees another
  status and starts a timer, and its next two ticks issue two more status requests for
  the job that was reported completed.
\<close>

theorem late_report_restarts_polling:
  "inflight overlappingTCS = [0, 0]
   \<and> length (requests overlappingTCS) = 3
   \<and> jobStatus (polls overlappingTCS
        [Answered 1 (okJson (snapshotOf ''job-1'' ''completed'' 100))])
       = Some (snapshotOf ''job-1'' ''completed'' 100)
   \<and> timers (polls overlappingTCS
        [Answered 1 (okJson (snapshotOf ''job-1'' ''completed'' 100))]) = []
   \<and> jobStatus (polls overlappingTCS
        [Answered 1 (okJson (snapshotOf ''job-1'' ''completed'' 100)),
         Answered 0 (okJson (snapshotOf ''job-1'' ''running'' 80))])
       = Some (snapshotOf ''job-1'' ''running'' 80)
   \<and> timers (polls overlappingTCS
        [Answered 1 (okJson (snapshotOf ''job-1'' ''completed'' 100)),
         Answered 0 (okJson (snapshotOf ''job-1'' ''running'' 80))]) = [(1, ''job-1'')]
   \<and> requests (polls overlappingTCS
        [Answered 1 (okJson (snapshotOf ''job-1'' ''completed'' 100)),
         Answered 0 (okJson (snapshotOf ''job-1'' ''running'' 80)),
         Ticked 1, Ticked 1])
       = [generateModel_request [] ''TCS'' 5, getJobStatus_request [] ''job-1'',
          getJobStatus_request [] ''job-1'', getJobStatus_request [] ''job-1'',
          getJobStatus_request [] ''job-1'']"
  by (simp add: polls_def tick_def pollSettled_def pollEffect_def clearInterval_def
      getJobStatus_result_def okJson_def snapshotOf_def terminal_def Let_def
      overlappingTCS_eval)

section \<open>A failed poll is logged and otherwise ignored\<close>

lemma pollSettled_failure:
  assumes "k < length (inflight c)" and "getJobStatus_result fr = Inl err"
  shows "pollSettled k fr c =
    c\<lparr>inflight := take k (inflight c) @ drop (Suc k) (inflight c),
      console := console c @ [(''Failed to get job status:'', err)]\<rparr>"
  using assms by (simp add: pollSettled_def Let_def)

lemma getJobStatus_result_failure:
  "fr = Rejected e \<or> fr = Responded r \<and> \<not> ok r \<Longrightarrow>
   getJobStatus_result fr = Inl (if fr = Rejected e then e else Error ''Failed to get job status'')"
  by (auto simp: getJobStatus_result_def)

text \<open>
  Claim C3. When an outstanding poll settles with a rejected fetch or a response that is
  not ok, the callback logs one \<open>console.error\<close> line with the error, and the snapshot,
  the error shown to the user, the alerts and the timers are what they were. Any poll
  that later settles successfully, after any further ticks, puts the reported snapshot
  in place.
\<close>

theorem failed_poll_keeps_snapshot:
  assumes "k < length (inflight c)"
    and "fr = Rejected e \<or> fr = Responded r \<and> \<not> ok r"
  shows "jobStatus (pollSettled k fr c) = jobStatus c
    \<and> console (pollSettled k fr c) =
        console c @ [(''Failed to get job status:'',
                      if fr = Rejected e then e else Error ''Failed to get job status'')]
    \<and> error (pollSettled k fr c) = error c
    \<and> alerts (pollSettled k fr c) = alerts c
    \<and> timers (pollSettled k fr c) = timers c
    \<and> (\<forall>hs k' r' st. k' < length (inflight (ticks hs (pollSettled k fr c)))
          \<and> ok r' \<and> parsed r' = Inr st \<longrightarrow>
          jobStatus (pollSettled k' (Responded r') (ticks hs (pollSettled k fr c))) = Some st)"
proof -
  have "getJobStatus_result fr =
      Inl (if fr = Rejected e then e else Error ''Failed to get job status'')"
    using assms(2) by (rule getJobStatus_result_failure)
  with assms(1) have "pollSettled k fr c =
      c\<lparr>inflight := take k (inflight c) @ drop (Suc k) (inflight c),
        console := console c @ [(''Failed to get job status:'',
                      if fr = Rejected e then e else Error ''Failed to get job status'')]\<rparr>"
    by (rule pollSettled_failure)
  then show ?thesis
    by (simp add: jobStatus_pollSettled_ok)
qed

text \<open>
  The first poll for TCS is rejected by the network; the next tick's poll reports
  \<open>running\<close> at 40.
\<close>

theorem failed_poll_keeps_snapshot_witness:
  "jobStatus (pollSettled 0 (Rejected (Error ''Failed to fetch'')) pollingTCS)
     = Some (pendingJob ''job-1'')
   \<and> console (pollSettled 0 (Rejected (Error ''Failed to fetch'')) pollingTCS)
     = [(''Failed to get job status:'', Error ''Failed to fetch'')]
   \<and> error (pollSettled 0 (Rejected (Error ''Failed to fetch'')) pollingTCS) = None
   \<and> alerts (pollSettled 0 (Rejected (Error ''Failed to fetch'')) pollingTCS) = []
   \<and> inflight (ticks [0] (pollSettled 0 (Rejected (Error ''Failed to fetch'')) pollingTCS)) = [0]
   \<and> jobStatus (pollSettled 0 (okJson (snapshotOf ''job-1'' ''running'' 40))
        (ticks [0] (pollSettled 0 (Rejected (Error ''Failed to fetch'')) pollingTCS)))
     = Some (snapshotOf ''job-1'' ''running'' 40)"
  using failed_poll_keeps_snapshot [of 0 pollingTCS "Rejected (Error ''Failed to fetch'')"
      "Error ''Failed to fetch''"
      "\<lparr>ok = False, status_code = 500, parsed = Inl NonError, errorData = None, blob = []\<rparr>"]
  by (simp add: pollingTCS_eval okJson_def ticks_def tick_def pollSettled_failure
      getJobStatus_result_def jobStatus_pollSettled_ok)


section \<open>Progress in the snapshots held by the client\<close>

lemma jobStatus_tick [simp]: "jobStatus (tick h c) = jobStatus c"
  by (simp add: tick_def split: option.splits)










text \<open>
  The order that counts is the order of arrival. With two polls outstanding, the
  backend answers the first request at 30 and the second at 50; the second answer
  arrives first, and the client holds progress 0, 50, 30.
\<close>

lemma overlap_reorders_reports:
  "held overlappingTCS
     [Answered 1 (okJson (snapshotOf ''job-1'' ''running'' 50)),
      Answered 0 (okJson (snapshotOf ''job-1'' ''running'' 30))]
   = [Some (pendingJob ''job-1''), Some (snapshotOf ''job-1'' ''running'' 50),
      Some (snapshotOf ''job-1'' ''running'' 30)]
   \<and> arrivals overlappingTCS
     [Answered 1 (okJson (snapshotOf ''job-1'' ''running'' 50)),
      Answered 0 (okJson (snapshotOf ''job-1'' ''running'' 30))]
   = [snapshotOf ''job-1'' ''running'' 50, snapshotOf ''job-1'' ''running'' 30]"
  by (simp add: tick_def pollSettled_def pollEffect_def clearInterval_def
      getJobStatus_result_def okJson_def snapshotOf_def terminal_def Let_def
      overlappingTCS_eval)



section \<open>Submitting with a required field missing\<close>

lemma handleGenerate_missing: "missing_required c \<Longrightarrow> handleGenerate fr c = c"
  by (auto simp: missing_required_def handleGenerate_def)

lemma handleGenerate_v0_missing: "missing_required_v0 c \<Longrightarrow> handleGenerate_v0 fr c = c"
  by (auto simp: missing_required_v0_def handleGenerate_v0_def trim_def)

text \<open>
  Claim C4. A submit reaches the page only while the Generate button is rendered, that
  is while no job is shown. When then the chosen variant lacks a required field,
  \<open>handleGenerate\<close> returns at a guard before it touches anything: it issues no request,
  the job snapshot is empty afterwards, and nothing else of the state has changed. This
  holds for the four guarded variants of the current page and the two of the older one.
\<close>

theorem missing_field_submit_does_nothing:
  "(generate_rendered c \<and> missing_required c \<longrightarrow>
      requests (handleGenerate fr c) = requests c
      \<and> jobStatus (handleGenerate fr c) = None
      \<and> handleGenerate fr c = c)
   \<and> (generate_rendered c0 \<and> missing_required_v0 c0 \<longrightarrow>
      requests (handleGenerate_v0 fr c0) = requests c0
      \<and> jobStatus (handleGenerate_v0 fr c0) = None
      \<and> handleGenerate_v0 fr c0 = c0)"
proof (intro conjI impI)
  assume a: "generate_rendered c \<and> missing_required c"
  then have same: "handleGenerate fr c = c"
    by (simp add: handleGenerate_missing)
  show "handleGenerate fr c = c"
    by (rule same)
  show "requests (handleGenerate fr c) = requests c"
    by (simp only: same)
  show "jobStatus (handleGenerate fr c) = None"
    using a by (simp add: same generate_rendered_def)
next
  assume a: "generate_rendered c0 \<and> missing_required_v0 c0"
  then have same: "handleGenerate_v0 fr c0 = c0"
    by (simp add: handleGenerate_v0_missing)
  show "handleGenerate_v0 fr c0 = c0"
    by (rule same)
  show "requests (handleGenerate_v0 fr c0) = requests c0"
    by (simp only: same)
  show "jobStatus (handleGenerate_v0 fr c0) = None"
    using a by (simp add: same generate_rendered_def)
qed

text \<open>
  A freshly loaded page of either variant shows no job and has no stock selected; the
  current one, switched to the M&A tab, has no acquirer.
\<close>

theorem missing_field_submit_does_nothing_witness:
  "generate_rendered (initialHome ''production'')
   \<and> missing_required (initialHome ''production'')
   \<and> requests (handleGenerate (okJson ''job-1'') (initialHome ''production'')) = []
   \<and> jobStatus (handleGenerate (okJson ''job-1'') (initialHome ''production'')) = None
   \<and> generate_rendered initialHome_v0
   \<and> missing_required_v0 initialHome_v0
   \<and> requests (handleGenerate_v0 (okJson ''job-1'') initialHome_v0) = []
   \<and> jobStatus (handleGenerate_v0 (okJson ''job-1'') initialHome_v0) = None
   \<and> missing_required ((initialHome ''production'')\<lparr>activeTab := Ma\<rparr>)
   \<and> jobStatus (handleGenerate (okJson ''job-1'')
        ((initialHome ''production'')\<lparr>activeTab := Ma\<rparr>)) = None"
  using missing_field_submit_does_nothing [of "initialHome ''production''" "okJson ''job-1''" initialHome_v0]
    missing_field_submit_does_nothing [of "(initialHome ''production'')\<lparr>activeTab := Ma\<rparr>"
      "okJson ''job-1''" initialHome_v0]
  by (simp add: generate_rendered_def missing_required_def missing_required_v0_def
      initialHome_def initialHome_v0_def pollEffect_def Let_def)

text \<open>The state in which job \<open>job-1\<close> has been reported as completed.\<close>

lemma finishedTCS_eval:
  "jobStatus (finishedTCS fname) = Some (finishedJob fname)"
  "timers (finishedTCS fname) = []"
  "inflight (finishedTCS fname) = []"
  "requests (finishedTCS fname) = [generateModel_request [] ''TCS'' 5, getJobStatus_request [] ''job-1'']"
  "API_BASE (finishedTCS fname) = []"
  "error (finishedTCS fname) = None"
  "alerts (finishedTCS fname) = []"
  "saved (finishedTCS fname) = []"
  "console (finishedTCS fname) = []"
  "activeTab (finishedTCS fname) = Stocks"
  "selectedStock (finishedTCS fname) = Some (stockOf ''TCS'')"
  "isLoading (finishedTCS fname) = False"
  by (simp_all add: finishedTCS_def run_def pollSettled_def pollEffect_def clearInterval_def
      getJobStatus_result_def okJson_def finishedJob_def snapshotOf_def terminal_def Let_def
      pollingTCS_eval)


section \<open>Submitting a stock\<close>

text \<open>The effect writes only \<open>isLoading\<close>, the timers and its own bookkeeping.\<close>

lemma pollEffect_fields [simp]:
  "selectedStock (pollEffect c) = selectedStock c"
  "forecastYears (pollEffect c) = forecastYears c"
  "error (pollEffect c) = error c"
  "API_BASE (pollEffect c) = API_BASE c"
  "inflight (pollEffect c) = inflight c"
  "console (pollEffect c) = console c"
  "alerts (pollEffect c) = alerts c"
  "saved (pollEffect c) = saved c"
  by (simp_all add: pollEffect_def clearInterval_def Let_def split: option.splits)

lemma pollEffect_Home_fields [simp]:
  "activeTab (pollEffect h) = activeTab h"
  "excelFile (pollEffect h) = excelFile h"
  "excelCompanyName (pollEffect h) = excelCompanyName h"
  "excelIndustry (pollEffect h) = excelIndustry h"
  "lboAssumptions (pollEffect h) = lboAssumptions h"
  "acquirerStock (pollEffect h) = acquirerStock h"
  "targetStock (pollEffect h) = targetStock h"
  "maAssumptions (pollEffect h) = maAssumptions h"
  by (simp_all add: pollEffect_def clearInterval_def Let_def split: option.splits)

lemma pollEffect_Home_v0_fields [simp]:
  "activeTab_v0 (pollEffect h0) = activeTab_v0 h0"
  "rawData (pollEffect h0) = rawData h0"
  by (simp_all add: pollEffect_def clearInterval_def Let_def split: option.splits)

lemma timers_pollEffect_idle:
  "lifecycle_ok c \<Longrightarrow> timers c' = timers c \<Longrightarrow> effectDeps c' = effectDeps c \<Longrightarrow>
   effectCleanup c' = effectCleanup c \<Longrightarrow> jobStatus c' = None \<Longrightarrow> timers (pollEffect c') = []"
  using lifecycle_ok_pollEffect [of c c'] by (simp add: lifecycle_ok_def)

text \<open>
  Claim C5. With the stock tab active, TCS selected and five forecast years, a submit
  whose response is ok and yields a job id issues exactly one request, the POST to
  \<open>/api/model/generate\<close> under \<open>API_BASE\<close> with the body of the claim, and leaves the
  pending snapshot of that job: status \<open>pending\<close>, progress 0.
\<close>

theorem submit_TCS:
  assumes "activeTab c = Stocks" and "selectedStock c = Some s" and "symbol s = ''TCS''"
    and "forecastYears c = 5"
    and "ok r" and "parsed r = Inr jobId"
  shows "requests (handleGenerate (Responded r) c) =
      requests c @
      [\<lparr>meth = ''POST'', url = API_BASE c @ ''/api/model/generate'',
        headers = [(''Content-Type'', ''application/json'')],
        body = JsonBody (JObj
          [(''symbol'', JStr ''TCS''),
           (''exchange'', JStr ''NSE''),
           (''forecast_years'', JNum 5),
           (''model_types'', JArr [JStr ''three_statement'', JStr ''dcf''])])\<rparr>]
    \<and> jobStatus (handleGenerate (Responded r) c) =
      Some \<lparr>job_id = jobId, status = ''pending'', progress = 0, message = ''Starting...'',
            company_name = None, industry = None, download_url = None, filename = None,
            validation = None\<rparr>"
  using assms
  by (simp add: handleGenerate_def handleGenerate_call_def generateModel_request_def
      generateModel_result_def pendingJob_def Let_def)

text \<open>In production \<open>API_BASE\<close> is empty and the URL is the bare path.\<close>

theorem submit_TCS_witness:
  "requests (handleGenerate (okJson ''job-1'')
      (selectStock_onClick (stockOf ''TCS'') (initialHome ''production''))) =
      [\<lparr>meth = ''POST'', url = ''/api/model/generate'',
        headers = [(''Content-Type'', ''application/json'')],
        body = JsonBody (JObj
          [(''symbol'', JStr ''TCS''),
           (''exchange'', JStr ''NSE''),
           (''forecast_years'', JNum 5),
           (''model_types'', JArr [JStr ''three_statement'', JStr ''dcf''])])\<rparr>]
    \<and> jobStatus (handleGenerate (okJson ''job-1'')
      (selectStock_onClick (stockOf ''TCS'') (initialHome ''production''))) =
      Some \<lparr>job_id = ''job-1'', status = ''pending'', progress = 0, message = ''Starting...'',
            company_name = None, industry = None, download_url = None, filename = None,
            validation = None\<rparr>"
  using submit_TCS [of "selectStock_onClick (stockOf ''TCS'') (initialHome ''production'')"
      "stockOf ''TCS''"
      "\<lparr>ok = True, status_code = 200, parsed = Inr ''job-1'', errorData = None, blob = []\<rparr>"
      "''job-1''"]
  by (simp add: okJson_def selectStock_onClick_def initialHome_def pollEffect_def stockOf_def
      API_BASE_of_def Let_def)


section \<open>A submission that the backend refuses\<close>

text \<open>
  What the code achieves: the stock, LBO and M&A calls, and both calls of the older
  page, throw a fixed sentence, and the catch branch shows it.
\<close>

lemma handleGenerate_call_Some:
  "\<not> missing_required c \<Longrightarrow> activeTab c \<noteq> Compare \<Longrightarrow>
   \<exists>req. handleGenerate_call fr c =
     Some (req, case activeTab c of
                  Stocks \<Rightarrow> generateModel_result fr
                | Excel \<Rightarrow> uploadExcelFile_result fr
                | Lbo \<Rightarrow> generateLBOModel_result fr
                | Ma \<Rightarrow> generateMAModel_result fr
                | Compare \<Rightarrow> Inl NonError)"
  by (cases "activeTab c")
     (auto simp: missing_required_def handleGenerate_call_def split: option.splits)

lemma not_ok_results:
  "\<not> ok r \<Longrightarrow> \<exists>m. m \<noteq> [] \<and>
     (case t of
        Stocks \<Rightarrow> generateModel_result (Responded r)
      | Excel \<Rightarrow> uploadExcelFile_result (Responded r)
      | Lbo \<Rightarrow> generateLBOModel_result (Responded r)
      | Ma \<Rightarrow> generateMAModel_result (Responded r)
      | Compare \<Rightarrow> Inl NonError) = Inl (Error m) \<or> t = Compare \<or> t = Excel"
  by (cases t)
     (auto simp: generateModel_result_def uploadExcelFile_result_def generateLBOModel_result_def
        generateMAModel_result_def split: option.splits)

lemma handleGenerate_failed:
  assumes "\<not> missing_required c" and "handleGenerate_call fr c = Some (req, Inl (Error m))"
  shows "handleGenerate fr c =
    pollEffect ((pollEffect (c\<lparr>isLoading := True, error := None, jobStatus := None,
      requests := requests c @ [req]\<rparr>))\<lparr>error := Some m, isLoading := False\<rparr>)"
  using assms
  by (auto simp: handleGenerate_def missing_required_def Let_def)

lemma failed_state_facts:
  assumes ok: "lifecycle_ok c"
  shows "jobStatus (pollEffect ((pollEffect (c\<lparr>isLoading := True, error := None, jobStatus := None,
      requests := rs\<rparr>))\<lparr>error := Some m, isLoading := False\<rparr>)) = None
    \<and> timers (pollEffect ((pollEffect (c\<lparr>isLoading := True, error := None, jobStatus := None,
      requests := rs\<rparr>))\<lparr>error := Some m, isLoading := False\<rparr>)) = []
    \<and> error (pollEffect ((pollEffect (c\<lparr>isLoading := True, error := None, jobStatus := None,
      requests := rs\<rparr>))\<lparr>error := Some m, isLoading := False\<rparr>)) = Some m
    \<and> requests (pollEffect ((pollEffect (c\<lparr>isLoading := True, error := None, jobStatus := None,
      requests := rs\<rparr>))\<lparr>error := Some m, isLoading := False\<rparr>)) = rs"
proof -
  let ?c1 = "pollEffect (c\<lparr>isLoading := True, error := None, jobStatus := None,
      requests := rs\<rparr>)"
  have c1: "lifecycle_ok ?c1"
    by (rule lifecycle_ok_pollEffect [OF ok]) simp_all
  have "timers (pollEffect (?c1\<lparr>error := Some m, isLoading := False\<rparr>)) = []"
    by (rule timers_pollEffect_idle [OF c1]) simp_all
  then show ?thesis by simp
qed

lemma failed_submission_current:
  assumes "\<not> ok r" and "\<not> missing_required c" and "activeTab c \<noteq> Compare"
    and "lifecycle_ok c" and "activeTab c \<noteq> Excel"
  shows "(\<exists>m. m \<noteq> [] \<and> error (handleGenerate (Responded r) c) = Some m)
    \<and> jobStatus (handleGenerate (Responded r) c) = None
    \<and> timers (handleGenerate (Responded r) c) = []
    \<and> length (requests (handleGenerate (Responded r) c)) = Suc (length (requests c))"
proof -
  obtain req where call: "handleGenerate_call (Responded r) c =
     Some (req, case activeTab c of
                  Stocks \<Rightarrow> generateModel_result (Responded r)
                | Excel \<Rightarrow> uploadExcelFile_result (Responded r)
                | Lbo \<Rightarrow> generateLBOModel_result (Responded r)
                | Ma \<Rightarrow> generateMAModel_result (Responded r)
                | Compare \<Rightarrow> Inl NonError)"
    using handleGenerate_call_Some [OF assms(2,3)] by blast
  obtain m where m: "m \<noteq> []" "(case activeTab c of
                  Stocks \<Rightarrow> generateModel_result (Responded r)
                | Excel \<Rightarrow> uploadExcelFile_result (Responded r)
                | Lbo \<Rightarrow> generateLBOModel_result (Responded r)
                | Ma \<Rightarrow> generateMAModel_result (Responded r)
                | Compare \<Rightarrow> Inl NonError) = Inl (Error m)"
    using not_ok_results [OF assms(1), of "activeTab c"] assms(3) assms(5) by blast
  from call m(2) have "handleGenerate_call (Responded r) c = Some (req, Inl (Error m))"
    by simp
  with assms(2) have "handleGenerate (Responded r) c =
    pollEffect ((pollEffect (c\<lparr>isLoading := True, error := None, jobStatus := None,
      requests := requests c @ [req]\<rparr>))\<lparr>error := Some m, isLoading := False\<rparr>)"
    by (rule handleGenerate_failed)
  then show ?thesis
    using failed_state_facts [OF assms(4), where rs = "requests c @ [req]" and m = m] m(1)
    by simp
qed

lemma failed_submission_older:
  assumes "\<not> ok r"
    and "\<not> (activeTab_v0 c0 = Stocks_v0 \<and> selectedStock c0 = None)"
    and "\<not> (activeTab_v0 c0 = Raw_v0 \<and> trim (raw_company_name (rawData c0)) = [])"
    and "lifecycle_ok c0"
  shows "error (handleGenerate_v0 (Responded r) c0)
      = Some ''Failed to start model generation. Please try again.''
    \<and> jobStatus (handleGenerate_v0 (Responded r) c0) = None
    \<and> timers (handleGenerate_v0 (Responded r) c0) = []
    \<and> length (requests (handleGenerate_v0 (Responded r) c0)) = Suc (length (requests c0))"
proof -
  have "\<exists>req. handleGenerate_v0 (Responded r) c0 =
    pollEffect ((pollEffect (c0\<lparr>isLoading := True, error := None, jobStatus := None,
      requests := requests c0 @ [req]\<rparr>))
      \<lparr>error := Some ''Failed to start model generation. Please try again.'',
        isLoading := False\<rparr>)"
    using assms(1-3)
    by (auto simp: handleGenerate_v0_def generateModel_result_def generateRawModel_result_def
        Let_def split: TabType_v0.splits option.splits)
  then obtain req where "handleGenerate_v0 (Responded r) c0 =
    pollEffect ((pollEffect (c0\<lparr>isLoading := True, error := None, jobStatus := None,
      requests := requests c0 @ [req]\<rparr>))
      \<lparr>error := Some ''Failed to start model generation. Please try again.'',
        isLoading := False\<rparr>)" ..
  then show ?thesis
    using failed_state_facts [OF assms(4), where rs = "requests c0 @ [req]"
        and m = "''Failed to start model generation. Please try again.''"] by simp
qed

text \<open>
  The message of a refused upload is the \<open>detail\<close> of the response as \<open>String\<close> prints
  it, or the status when there is none. An empty array is truthy and prints as the empty
  string.
\<close>

lemma upload_failed_message:
  "uploadExcelFile_result (notOk 500 None []) = Inl (Error ''Upload failed: 500'')"
  "uploadExcelFile_result (notOk 422 (Some (Obj [(''detail'', Str ''Not a workbook'')])) [])
     = Inl (Error ''Not a workbook'')"
  "uploadExcelFile_result (notOk 422 (Some (Obj [(''detail'', Str [])])) [])
     = Inl (Error ''Upload failed: 422'')"
  "uploadExcelFile_result (notOk 422 (Some (Obj [(''detail'', Arr [])])) []) = Inl (Error [])"
  "uploadExcelFile_result
     (notOk 422 (Some (Obj [(''detail'', Arr [Obj [(''msg'', Str ''field required'')]])])) [])
     = Inl (Error ''[object Object]'')"
  "uploadExcelFile_result (notOk 500 (Some Null) [])
     = Inl (Error (''Cannot read properties of null (reading '' @ [CHR 0x27] @ ''detail''
                   @ [CHR 0x27] @ '')''))"
  by code_simp+

lemma upload_not_ok: "\<not> ok r \<Longrightarrow> \<exists>m. uploadExcelFile_result (Responded r) = Inl (Error m)"
  by (auto simp: uploadExcelFile_result_def detail_of_def split: option.splits jsval.splits)

lemma workbookChosen_eval:
  "activeTab workbookChosen = Excel"
  "excelFile workbookChosen = Some \<lparr>file_name = ''acme.xlsx'', file_bytes = ''PK34''\<rparr>"
  "excelCompanyName workbookChosen = []"
  "excelIndustry workbookChosen = ''general''"
  "forecastYears workbookChosen = 5"
  "jobStatus workbookChosen = None"
  "requests workbookChosen = []"
  "API_BASE workbookChosen = []"
  "effectDeps workbookChosen = Some (None, None)"
  "effectCleanup workbookChosen = None"
  "timers workbookChosen = []"
  by (simp_all add: workbookChosen_def run_def initialHome_def pollEffect_def API_BASE_of_def
      Let_def)

text \<open>
  Claim C6, at the input where the code departs from it. A workbook is chosen in the
  upload tab and the upload is answered with status 422 and the body
  \<open>{"detail": []}\<close>. The request went out, the snapshot is empty and no timer runs, but
  the message put into the error cell is the empty string, which \<open>{error && ...}\<close>
  does not display. The stock call, on the same response, shows its sentence.
\<close>

theorem refused_upload_empty_message:
  "generate_rendered workbookChosen
   \<and> \<not> missing_required workbookChosen
   \<and> error (handleGenerate (notOk 422 (Some (Obj [(''detail'', Arr [])])) []) workbookChosen)
       = Some []
   \<and> jobStatus (handleGenerate (notOk 422 (Some (Obj [(''detail'', Arr [])])) [])
        workbookChosen) = None
   \<and> timers (handleGenerate (notOk 422 (Some (Obj [(''detail'', Arr [])])) [])
        workbookChosen) = []
   \<and> requests (handleGenerate (notOk 422 (Some (Obj [(''detail'', Arr [])])) [])
        workbookChosen)
       = [uploadExcelFile_request [] \<lparr>file_name = ''acme.xlsx'', file_bytes = ''PK34''\<rparr>
            (strip_xlsx ''acme.xlsx'') ''general'' 5]
   \<and> error (handleGenerate (notOk 422 (Some (Obj [(''detail'', Arr [])])) [])
        (selectStock_onClick (stockOf ''TCS'') (initialHome ''production'')))
       = Some ''Failed to start model generation''"
proof -
  let ?fr = "notOk 422 (Some (Obj [(''detail'', Arr [])])) [] :: string fetch_result"
  let ?req = "uploadExcelFile_request [] \<lparr>file_name = ''acme.xlsx'', file_bytes = ''PK34''\<rparr>
            (strip_xlsx ''acme.xlsx'') ''general'' 5"
  have ok: "lifecycle_ok workbookChosen"
    unfolding workbookChosen_def by (intro lifecycle_ok_run lifecycle_ok_initialHome)
  have pre: "generate_rendered workbookChosen" "\<not> missing_required workbookChosen"
    by (simp_all add: generate_rendered_def missing_required_def workbookChosen_eval)
  have "handleGenerate_call ?fr workbookChosen = Some (?req, Inl (Error []))"
    by (simp add: handleGenerate_call_def workbookChosen_eval upload_failed_message)
  with pre(2) have "handleGenerate ?fr workbookChosen =
    pollEffect ((pollEffect (workbookChosen\<lparr>isLoading := True, error := None,
      jobStatus := None, requests := requests workbookChosen @ [?req]\<rparr>))
      \<lparr>error := Some [], isLoading := False\<rparr>)"
    by (rule handleGenerate_failed)
  then have upload: "error (handleGenerate ?fr workbookChosen) = Some []"
    "jobStatus (handleGenerate ?fr workbookChosen) = None"
    "timers (handleGenerate ?fr workbookChosen) = []"
    "requests (handleGenerate ?fr workbookChosen) = [?req]"
    using failed_state_facts [OF ok, where rs = "requests workbookChosen @ [?req]" and m = "[]"]
    by (simp_all add: workbookChosen_eval)
  have stock: "error (handleGenerate ?fr
        (selectStock_onClick (stockOf ''TCS'') (initialHome ''production'')))
       = Some ''Failed to start model generation''"
    by (simp add: handleGenerate_def handleGenerate_call_def generateModel_result_def notOk_def
        selectStock_onClick_def initialHome_def Let_def)
  show ?thesis
    using pre upload stock by (intro conjI)
qed

lemma strip_xlsx_acme: "strip_xlsx ''acme.xlsx'' = ''acme''"
  by code_simp

text \<open>
  \<open>handleGenerate\<close> is its two halves run one after the other, the fetch settling before
  anything else happens.
\<close>

lemma handleGenerate_call_request:
  "map_option fst (handleGenerate_call fr c) = map_option fst (handleGenerate_call fr' c)"
  by (simp add: handleGenerate_call_def split: TabType.splits option.splits)

lemma handleGenerate_halves:
  assumes "\<not> missing_required c" and "handleGenerate_call fr c = Some (req, res)"
  shows "handleGenerate fr c = handleGenerate_settled res (handleGenerate_begin c)"
proof -
  have "map_option fst (handleGenerate_call (Rejected NonError) c) = Some req"
    using handleGenerate_call_request [of "Rejected NonError" c fr] assms(2) by simp
  then obtain res' where first: "handleGenerate_call (Rejected NonError) c = Some (req, res')"
    by auto
  have guards: "\<not> (activeTab c = Stocks \<and> selectedStock c = None)"
    "\<not> (activeTab c = Excel \<and> excelFile c = None)"
    "\<not> (activeTab c = Lbo \<and> selectedStock c = None)"
    "\<not> (activeTab c = Ma \<and> (acquirerStock c = None \<or> targetStock c = None))"
    using assms(1) by (auto simp: missing_required_def)
  show ?thesis
    unfolding handleGenerate_def handleGenerate_begin_def handleGenerate_settled_def
    by (simp only: guards if_False Let_def assms(2) first option.case prod.case)

qed

lemma reselected_eval:
  "jobStatus reselected = None"
  "timers reselected = []"
  "inflight reselected = [0]"
  "activeTab reselected = Stocks"
  "selectedStock reselected = Some (stockOf ''INFY'')"
  "forecastYears reselected = 5"
  "API_BASE reselected = []"
  "effectDeps reselected = Some (None, None)"
  "effectCleanup reselected = None"
  "nextTimer reselected = 1"
  "requests reselected = [generateModel_request [] ''TCS'' 5, getJobStatus_request [] ''job-1'']"
  by (simp_all add: reselected_def run_def selectStock_onClick_def pollEffect_def
      clearInterval_def Let_def pollingTCS_eval)

text \<open>
  When something else happens in between, the same unguarded callback as in claim C1
  is at work. A poll for \<open>job-1\<close> is outstanding when the user picks another stock, which
  empties the snapshot, and submits it. While that request is out the old poll is
  answered, \<open>running\<close> at 40: the snapshot is \<open>job-1\<close> again and a timer runs. The
  submission is then refused, and the error is shown next to a job that is being
  polled.
\<close>

lemma late_report_during_submit:
  "generate_rendered reselected
   \<and> jobStatus (handleGenerate_begin reselected) = None
   \<and> jobStatus (handleGenerate_settled (generateModel_result (notOk 500 None []))
        (pollSettled 0 (okJson (snapshotOf ''job-1'' ''running'' 40))
          (handleGenerate_begin reselected)))
       = Some (snapshotOf ''job-1'' ''running'' 40)
   \<and> timers (handleGenerate_settled (generateModel_result (notOk 500 None []))
        (pollSettled 0 (okJson (snapshotOf ''job-1'' ''running'' 40))
          (handleGenerate_begin reselected)))
       = [(1, ''job-1'')]
   \<and> error (handleGenerate_settled (generateModel_result (notOk 500 None []))
        (pollSettled 0 (okJson (snapshotOf ''job-1'' ''running'' 40))
          (handleGenerate_begin reselected)))
       = Some ''Failed to start model generation''"
  by (simp add: generate_rendered_def handleGenerate_begin_def handleGenerate_settled_def
      handleGenerate_call_def generateModel_result_def getJobStatus_result_def pollSettled_def
      pollEffect_def clearInterval_def notOk_def okJson_def snapshotOf_def stockOf_def
      terminal_def reselected_eval Let_def)

section \<open>Download and export of a finished job\<close>

lemma downloadable_finishedTCS:
  "downloadable (finishedTCS fname) = Some (finishedJob fname, ''/x'')"
  by (simp add: downloadable_def finishedTCS_eval finishedJob_def snapshotOf_def)

text \<open>
  Claim C7, as the code has it. For a completed job with a download URL, a click on the
  download link fetches that URL and, whatever response comes back, saves its bytes
  under the job's \<open>filename\<close> when that is present and not empty, and under
  \<open>financial_model.xlsx\<close> when it is absent or empty.
\<close>

theorem download_saves_under_filename:
  assumes "downloadable c = Some (js, u)"
  shows "saved (downloadExcel_onClick (Responded r) c) =
      saved c @
      [(case filename js of
          None \<Rightarrow> ''financial_model.xlsx''
        | Some f \<Rightarrow> if f = [] then ''financial_model.xlsx'' else f,
        blob r)]
    \<and> requests (downloadExcel_onClick (Responded r) c) =
      requests c @ [\<lparr>meth = ''GET'', url = u, headers = [], body = NoBody\<rparr>]"
  using assms by (simp add: downloadExcel_onClick_def Let_def split: option.splits)

text \<open>
  As stated, the claim has every present \<open>filename\<close> used. A job whose \<open>filename\<close> is
  present and empty is saved under the default name, since \<open>||\<close> takes the empty string
  for absent.
\<close>

theorem download_empty_filename_counterexample:
  "filename (finishedJob (Some [])) = Some []
   \<and> downloadable (finishedTCS (Some [])) = Some (finishedJob (Some []), ''/x'')
   \<and> saved (downloadExcel_onClick (okJson ()) (finishedTCS (Some [])))
       = [(''financial_model.xlsx'', [])]
   \<and> map fst (saved (downloadExcel_onClick (okJson ()) (finishedTCS (Some [])))) \<noteq> [[]]"
  by (simp add: downloadExcel_onClick_def downloadable_finishedTCS finishedTCS_eval okJson_def
      finishedJob_def snapshotOf_def Let_def)

text \<open>A 200 response for the finished TCS job, with and without a \<open>filename\<close>.\<close>

theorem download_saves_under_filename_witness:
  "downloadable (finishedTCS (Some ''TCS_model.xlsx''))
     = Some (finishedJob (Some ''TCS_model.xlsx''), ''/x'')
   \<and> saved (downloadExcel_onClick
        (Responded \<lparr>ok = True, status_code = 200, parsed = Inr (), errorData = None, blob = ''PK34''\<rparr>)
        (finishedTCS (Some ''TCS_model.xlsx'')))
       = [(''TCS_model.xlsx'', ''PK34'')]
   \<and> downloadable (finishedTCS None) = Some (finishedJob None, ''/x'')
   \<and> saved (downloadExcel_onClick
        (Responded \<lparr>ok = True, status_code = 200, parsed = Inr (), errorData = None, blob = ''PK34''\<rparr>)
        (finishedTCS None))
       = [(''financial_model.xlsx'', ''PK34'')]"
  using download_saves_under_filename [of "finishedTCS (Some ''TCS_model.xlsx'')"
      "finishedJob (Some ''TCS_model.xlsx'')" "''/x''"
      "\<lparr>ok = True, status_code = 200, parsed = Inr (), errorData = None, blob = ''PK34''\<rparr>"]
    download_saves_under_filename [of "finishedTCS None" "finishedJob None" "''/x''"
      "\<lparr>ok = True, status_code = 200, parsed = Inr (), errorData = None, blob = ''PK34''\<rparr>"]
  by (simp add: downloadable_finishedTCS finishedTCS_eval finishedJob_def snapshotOf_def)

text \<open>
  Claim C8, at the input where the code departs from it. The finished TCS job is shown
  and the fetch behind the download link is answered with 404, or rejected. The handler
  raises no alert and sets no error: the 404 body is saved as the workbook, the
  rejection is dropped. The two export buttons, on the same failures, do raise their
  alert and save nothing.
\<close>

theorem failed_download_raises_no_alert:
  "downloadable (finishedTCS (Some ''TCS_model.xlsx''))
     = Some (finishedJob (Some ''TCS_model.xlsx''), ''/x'')
   \<and> alerts (downloadExcel_onClick (notOk 404 None ''Not Found'')
        (finishedTCS (Some ''TCS_model.xlsx''))) = []
   \<and> saved (downloadExcel_onClick (notOk 404 None ''Not Found'')
        (finishedTCS (Some ''TCS_model.xlsx''))) = [(''TCS_model.xlsx'', ''Not Found'')]
   \<and> alerts (downloadExcel_onClick (Rejected (Error ''Failed to fetch''))
        (finishedTCS (Some ''TCS_model.xlsx''))) = []
   \<and> error (downloadExcel_onClick (Rejected (Error ''Failed to fetch''))
        (finishedTCS (Some ''TCS_model.xlsx''))) = None
   \<and> alerts (exportPdf_onClick (notOk 404 None ''Not Found'')
        (finishedTCS (Some ''TCS_model.xlsx''))) = [''PDF export failed. Please try again.'']
   \<and> saved (exportPdf_onClick (notOk 404 None ''Not Found'')
        (finishedTCS (Some ''TCS_model.xlsx''))) = []
   \<and> alerts (exportPptx_onClick (Rejected (Error ''Failed to fetch''))
        (finishedTCS (Some ''TCS_model.xlsx'')))
       = [''PowerPoint export failed. Please try again.'']"
  by (simp add: downloadExcel_onClick_def exportPdf_onClick_def exportPptx_onClick_def
      downloadExportFile_result_def downloadable_finishedTCS finishedTCS_eval notOk_def
      finishedJob_def snapshotOf_def Let_def)

text \<open>
  The export buttons in general: a rejected fetch or a response that is not ok gives
  one alert and leaves the files and the job alone.
\<close>

lemma failed_export_alerts:
  assumes "downloadable c = Some (js, u)"
    and "fr = Rejected e \<or> fr = Responded r \<and> \<not> ok r"
  shows "alerts (exportPdf_onClick fr c) = alerts c @ [''PDF export failed. Please try again.'']
    \<and> alerts (exportPptx_onClick fr c) = alerts c @ [''PowerPoint export failed. Please try again.'']
    \<and> saved (exportPdf_onClick fr c) = saved c \<and> saved (exportPptx_onClick fr c) = saved c
    \<and> jobStatus (exportPdf_onClick fr c) = jobStatus c
    \<and> jobStatus (exportPptx_onClick fr c) = jobStatus c"
  using assms
  by (auto simp: exportPdf_onClick_def exportPptx_onClick_def downloadExportFile_result_def Let_def)


end
